theory Spec2Isabelle
  imports Complex_Main
begin

section \<open>Limits of the interpreter\<close>

text \<open>The capacities of \<^verbatim>\<open>englang.c\<close> (its \<^verbatim>\<open>#define\<close> block).\<close>

definition MAX_VARS :: nat where "MAX_VARS = 512"
definition MAX_NAME :: nat where "MAX_NAME = 64"
definition MAX_LINE :: nat where "MAX_LINE = 1024"
definition MAX_STACK :: nat where "MAX_STACK = 512"
definition MAX_FUNCS :: nat where "MAX_FUNCS = 256"
definition MAX_MEM :: nat where "MAX_MEM = 1024"
definition MAX_ARRAYS :: nat where "MAX_ARRAYS = 64"
definition MAX_ARRAY_SIZE :: nat where "MAX_ARRAY_SIZE = 1024"

section \<open>String helpers\<close>

text \<open>
  C strings are modelled as \<^typ>\<open>string\<close> without the terminating zero byte.
  \<^verbatim>\<open>isspace\<close> in the C locale accepts the space and the characters 9 to 13.
\<close>

definition isspace :: "char \<Rightarrow> bool" where
  "isspace c = (c = CHR '' '' \<or> c = CHR 0x09 \<or> c = CHR 0x0A \<or> c = CHR 0x0B
                \<or> c = CHR 0x0C \<or> c = CHR 0x0D)"

definition dquote :: char where "dquote = CHR 0x22"
definition squote :: char where "squote = CHR 0x27"
definition newline :: char where "newline = CHR 0x0A"

text \<open>
  \<^verbatim>\<open>trim\<close>: skip the leading white space, then cut the trailing white space. The
  backward loop stops at the first character (\<^verbatim>\<open>e > s\<close>), which is not a space
  after the forward loop unless the string is empty.
\<close>

definition trim :: "string \<Rightarrow> string" where
  "trim s = rev (dropWhile isspace (rev (dropWhile isspace s)))"

fun startswith :: "string \<Rightarrow> string \<Rightarrow> bool" where
  "startswith s [] = True"
| "startswith [] (p # ps) = False"
| "startswith (c # cs) (p # ps) = (c = p \<and> startswith cs ps)"

text \<open>
  \<^verbatim>\<open>tokenize\<close>: at most \<open>max_tok\<close> tokens; a token that starts with a double
  quote runs to the next double quote (inclusive) or to the end of the line; any other
  token runs to the next white space. The quotes stay in the token. A token longer than
  \<^verbatim>\<open>MAX_NAME - 1\<close> characters is cut.
\<close>

definition quoted_token :: "string \<Rightarrow> string \<times> string" where
  "quoted_token cs =
     (let body = takeWhile (\<lambda>x. x \<noteq> dquote) cs;
          rest = dropWhile (\<lambda>x. x \<noteq> dquote) cs
      in case rest of
           [] \<Rightarrow> (dquote # body, [])
         | q # r \<Rightarrow> (dquote # body @ [q], r))"

fun tokenize :: "string \<Rightarrow> nat \<Rightarrow> string list" where
  "tokenize p max_tok =
     (if max_tok = 0 then []
      else case dropWhile isspace p of
             [] \<Rightarrow> []
           | c # cs \<Rightarrow>
               if c = dquote
               then take (MAX_NAME - 1) (fst (quoted_token cs))
                      # tokenize (snd (quoted_token cs)) (max_tok - 1)
               else take (MAX_NAME - 1) (takeWhile (\<lambda>x. \<not> isspace x) (c # cs))
                      # tokenize (dropWhile (\<lambda>x. \<not> isspace x) (c # cs)) (max_tok - 1))"

declare tokenize.simps [simp del]

text \<open>
  \<^verbatim>\<open>strtok(s, " \t")\<close> as \<^verbatim>\<open>eval_condition\<close> uses it: the words between runs
  of spaces and tabs, at most \<open>n\<close> of them.
\<close>

definition isdelim :: "char \<Rightarrow> bool" where
  "isdelim c = (c = CHR '' '' \<or> c = CHR 0x09)"

fun strtok_words :: "string \<Rightarrow> nat \<Rightarrow> string list" where
  "strtok_words s n =
     (if n = 0 then []
      else case dropWhile isdelim s of
             [] \<Rightarrow> []
           | c # cs \<Rightarrow> takeWhile (\<lambda>x. \<not> isdelim x) (c # cs)
                      # strtok_words (dropWhile (\<lambda>x. \<not> isdelim x) (c # cs)) (n - 1))"

declare strtok_words.simps [simp del]

text \<open>Words joined by single spaces (the \<^verbatim>\<open>strcat\<close> loops).\<close>

fun join_words :: "string list \<Rightarrow> string" where
  "join_words [] = []"
| "join_words [w] = w"
| "join_words (w # v # ws) = w @ CHR '' '' # join_words (v # ws)"

text \<open>The index of the first element equal to \<open>x\<close>, counted from \<open>i\<close>.\<close>

fun index_from :: "nat \<Rightarrow> 'a \<Rightarrow> 'a list \<Rightarrow> nat option" where
  "index_from i x [] = None"
| "index_from i x (y # ys) = (if y = x then Some i else index_from (Suc i) x ys)"

text \<open>Decimal rendering of a natural number (\<^verbatim>\<open>%d\<close> on a positive \<^verbatim>\<open>int\<close>).\<close>

definition digit_char :: "nat \<Rightarrow> char" where
  "digit_char d = ''0123456789'' ! d"

fun show_nat :: "nat \<Rightarrow> string" where
  "show_nat n = (if n < 10 then [digit_char n] else show_nat (n div 10) @ [digit_char (n mod 10)])"

declare show_nat.simps [simp del]

section \<open>Numbers and their text\<close>

text \<open>
  A \<^verbatim>\<open>double\<close> is modelled by a \<^typ>\<open>real\<close>: the finite values, with exact
  arithmetic. Rounding, overflow, the infinities, NaN and the negative zero have no
  counterpart. The C library functions \<^verbatim>\<open>strtod\<close>, \<^verbatim>\<open>atof\<close> and the
  \<^verbatim>\<open>%g\<close> conversion of \<^verbatim>\<open>printf\<close> are modelled here on that domain.
\<close>

definition isdigit :: "char \<Rightarrow> bool" where
  "isdigit c = (48 \<le> (of_char c :: nat) \<and> (of_char c :: nat) \<le> 57)"

definition digit_val :: "char \<Rightarrow> nat" where
  "digit_val c = of_char c - 48"

definition isxdigit :: "char \<Rightarrow> bool" where
  "isxdigit c = (isdigit c \<or> (65 \<le> (of_char c :: nat) \<and> (of_char c :: nat) \<le> 70)
                 \<or> (97 \<le> (of_char c :: nat) \<and> (of_char c :: nat) \<le> 102))"

definition xdigit_val :: "char \<Rightarrow> nat" where
  "xdigit_val c = (if isdigit c then of_char c - 48
                   else if (of_char c :: nat) \<le> 70 then of_char c - 55 else of_char c - 87)"

text \<open>
  A run of digits in base \<open>b\<close>: the accumulated value, the number of digits read and the
  rest of the input.
\<close>

fun eat_digits :: "nat \<Rightarrow> nat \<Rightarrow> nat \<Rightarrow> string \<Rightarrow> nat \<times> nat \<times> string" where
  "eat_digits b acc k [] = (acc, k, [])"
| "eat_digits b acc k (c # cs) =
     (if b = 10 \<and> isdigit c then eat_digits b (acc * 10 + digit_val c) (Suc k) cs
      else if b = 16 \<and> isxdigit c then eat_digits b (acc * 16 + xdigit_val c) (Suc k) cs
      else (acc, k, c # cs))"

text \<open>An optional sign: whether it is a minus, and the rest.\<close>

fun eat_sign :: "string \<Rightarrow> bool \<times> string" where
  "eat_sign [] = (False, [])"
| "eat_sign (c # cs) =
     (if c = CHR ''-'' then (True, cs) else if c = CHR ''+'' then (False, cs)
      else (False, c # cs))"

text \<open>
  An optional exponent introduced by one of the two letters \<open>lo\<close> and \<open>up\<close>: a sign and
  at least one decimal digit. Without a digit the exponent is not part of the number.
\<close>

definition eat_exponent :: "char \<Rightarrow> char \<Rightarrow> string \<Rightarrow> int \<times> string" where
  "eat_exponent lo up s =
     (case s of
        [] \<Rightarrow> (0, s)
      | c # cs \<Rightarrow>
          if c = lo \<or> c = up
          then (case eat_digits 10 0 0 (snd (eat_sign cs)) of
                  (ev, ne, r) \<Rightarrow>
                    if ne = 0 then (0, s)
                    else (if fst (eat_sign cs) then - int ev else int ev, r))
          else (0, s))"

text \<open>
  A mantissa in base \<open>b\<close> with an optional point, then the exponent (a power of
  \<open>eb\<close>). \<open>None\<close> when there is no digit at all.
\<close>

definition eat_number :: "nat \<Rightarrow> real \<Rightarrow> char \<Rightarrow> char \<Rightarrow> string \<Rightarrow> (real \<times> string) option" where
  "eat_number b eb lo up s =
     (case eat_digits b 0 0 s of
        (ip, ni, r1) \<Rightarrow>
          (case (case r1 of
                   [] \<Rightarrow> (ip, 0, r1)
                 | c # cs \<Rightarrow> if c = CHR ''.'' then eat_digits b ip 0 cs else (ip, 0, r1)) of
             (fp, nf, r2) \<Rightarrow>
               if ni + nf = 0 then None
               else (case eat_exponent lo up r2 of
                       (ev, r3) \<Rightarrow> Some (real fp / real b ^ nf * eb powi ev, r3))))"

text \<open>
  \<^verbatim>\<open>strtod\<close>: the value and the unread rest (\<^verbatim>\<open>*end\<close>). Leading white space and
  a sign are skipped; a \<^verbatim>\<open>0x\<close> prefix followed by hexadecimal digits starts a
  hexadecimal number with a binary exponent; otherwise the number is decimal. When
  nothing can be read the value is 0 and the rest is the whole input. The words
  \<^verbatim>\<open>inf\<close>, \<^verbatim>\<open>infinity\<close> and \<^verbatim>\<open>nan\<close>, which C reads as non-finite values,
  are not numbers here.
\<close>

definition is_hex_prefix :: "string \<Rightarrow> bool" where
  "is_hex_prefix r =
     (case r of
        z # x # h \<Rightarrow> z = CHR ''0'' \<and> (x = CHR ''x'' \<or> x = CHR ''X'')
      | _ \<Rightarrow> False)"

definition eat_decimal :: "string \<Rightarrow> (real \<times> string) option" where
  "eat_decimal r = eat_number 10 10 (CHR ''e'') (CHR ''E'') r"

definition strtod :: "string \<Rightarrow> real \<times> string" where
  "strtod s =
     (case eat_sign (dropWhile isspace s) of
        (neg, r) \<Rightarrow>
          (case (if is_hex_prefix r
                 then (case eat_number 16 2 (CHR ''p'') (CHR ''P'') (drop 2 r) of
                         None \<Rightarrow> eat_decimal r
                       | Some v \<Rightarrow> Some v)
                 else eat_decimal r) of
             None \<Rightarrow> (0, s)
           | Some (v, rest) \<Rightarrow> (if neg then - v else v, rest)))"

definition atof :: "string \<Rightarrow> real" where
  "atof s = fst (strtod s)"

text \<open>
  The \<^verbatim>\<open>%g\<close> conversion with the default precision 6. \<open>exp10_of\<close> finds the decimal
  exponent of a positive number (the bound \<open>n\<close> on the steps is larger than the exponent
  range of a double); the number is rounded to six significant digits, ties to even
  (\<open>g_digits\<close>: the six digits as a number, and the exponent of the first one);
  exponents from -4 to 5 give the fixed style, all others the exponent style; trailing
  zeros of the fraction and a point without fraction are dropped; the exponent is
  written with a sign and at least two digits.
\<close>

fun exp10_of :: "nat \<Rightarrow> real \<Rightarrow> int" where
  "exp10_of n a =
     (if n = 0 then 0
      else if 10 \<le> a then exp10_of (n - 1) (a / 10) + 1
      else if a < 1 then exp10_of (n - 1) (a * 10) - 1
      else 0)"

declare exp10_of.simps [simp del]

definition round_half_even :: "real \<Rightarrow> int" where
  "round_half_even y =
     (let f = \<lfloor>y\<rfloor>; r = y - of_int f
      in if r < 1 / 2 then f else if 1 / 2 < r then f + 1
         else if even f then f else f + 1)"

definition digits6 :: "nat \<Rightarrow> string" where
  "digits6 m = map (\<lambda>k. digit_char (m div 10 ^ k mod 10)) [5, 4, 3, 2, 1, 0]"

definition strip_zeros :: "string \<Rightarrow> string" where
  "strip_zeros ds = rev (dropWhile (\<lambda>c. c = CHR ''0'') (rev ds))"

definition with_point :: "string \<Rightarrow> string \<Rightarrow> string" where
  "with_point ip fr = (if strip_zeros fr = [] then ip else ip @ CHR ''.'' # strip_zeros fr)"

definition fmt_fixed :: "string \<Rightarrow> int \<Rightarrow> string" where
  "fmt_fixed ds e =
     (if 0 \<le> e then with_point (take (nat e + 1) ds) (drop (nat e + 1) ds)
      else with_point ''0'' (replicate (nat (- e) - 1) (CHR ''0'') @ ds))"

definition exp_text :: "int \<Rightarrow> string" where
  "exp_text e =
     CHR ''e'' # (if e < 0 then CHR ''-'' else CHR ''+'')
       # (if nat \<bar>e\<bar> < 10 then CHR ''0'' # show_nat (nat \<bar>e\<bar>) else show_nat (nat \<bar>e\<bar>))"

definition fmt_exp :: "string \<Rightarrow> int \<Rightarrow> string" where
  "fmt_exp ds e = with_point (take 1 ds) (drop 1 ds) @ exp_text e"

definition g_digits :: "real \<Rightarrow> nat \<times> int" where
  "g_digits x =
     (let e0 = exp10_of 400 \<bar>x\<bar>;
          m0 = round_half_even (\<bar>x\<bar> * 10 powi (5 - e0))
      in if m0 = 1000000 then (100000, e0 + 1) else (nat m0, e0))"

definition fmt_g :: "real \<Rightarrow> string" where
  "fmt_g x =
     (if x = 0 then ''0''
      else
        let m = fst (g_digits x);
            e = snd (g_digits x);
            body = (if - 4 \<le> e \<and> e < 6 then fmt_fixed (digits6 m) e
                    else fmt_exp (digits6 m) e)
        in if x < 0 then CHR ''-'' # body else body)"

text \<open>
  The casts \<^verbatim>\<open>(int)\<close> and \<^verbatim>\<open>(long)\<close> of a double truncate toward zero; the
  result is undefined in C when it does not fit (\<open>None\<close>).
\<close>

definition trunc :: "real \<Rightarrow> int" where
  "trunc x = (if 0 \<le> x then \<lfloor>x\<rfloor> else \<lceil>x\<rceil>)"

definition to_int :: "real \<Rightarrow> int option" where
  "to_int x = (if - (2 ^ 31) \<le> trunc x \<and> trunc x < 2 ^ 31 then Some (trunc x) else None)"

definition to_long :: "real \<Rightarrow> int option" where
  "to_long x = (if - (2 ^ 63) \<le> trunc x \<and> trunc x < 2 ^ 63 then Some (trunc x) else None)"

text \<open>The remainder \<^verbatim>\<open>a % b\<close> of C: the sign of the dividend.\<close>

definition c_rem :: "int \<Rightarrow> int \<Rightarrow> int" where
  "c_rem a b = sgn a * (\<bar>a\<bar> mod \<bar>b\<bar>)"

section \<open>Values and the interpreter state\<close>

text \<open>
  \<^verbatim>\<open>Value\<close> is a struct whose three fields are all kept: a statement that sets the
  type and the number leaves the text as it was. The field \<^verbatim>\<open>type\<close> of the struct is
  \<open>vtype\<close> here, and the field \<^verbatim>\<open>name\<close> of \<^verbatim>\<open>FuncDef\<close> is \<open>fname\<close>; the names of
  variables and of arrays are the first components of the table entries.
\<close>

datatype VType = TYPE_NUM | TYPE_STR

record Value =
  vtype :: VType
  num :: real
  str :: string

definition zero_value :: Value where
  "zero_value = \<lparr>vtype = TYPE_NUM, num = 0, str = []\<rparr>"

record Array =
  data :: "nat \<Rightarrow> Value"
  size :: nat

record FuncDef =
  fname :: string
  start_line :: nat
  end_line :: nat
  params :: "string list"

text \<open>
  The tables \<^verbatim>\<open>vars\<close> and \<^verbatim>\<open>arrays\<close> are filled from slot 0 upwards and no slot
  is ever released, so the used slots are a prefix: a table is the list of its used
  slots, in slot order, and a pointer into a table is an index. \<^verbatim>\<open>funcs\<close> with
  \<^verbatim>\<open>func_count\<close> and \<^verbatim>\<open>data_stack\<close> with \<^verbatim>\<open>stack_top\<close> are the lists of their
  live entries (the top of the stack is the last element). \<open>out\<close> and \<open>err\<close> are what
  has been written to the standard output and to the standard error, \<open>inp\<close> is what is
  left of the standard input.
\<close>

record state =
  vars :: "(string \<times> Value) list"
  arrays :: "(string \<times> Array) list"
  funcs :: "FuncDef list"
  mem :: "nat \<Rightarrow> real"
  data_stack :: "real list"
  out :: string
  err :: string
  inp :: string

definition init_state :: "string \<Rightarrow> state" where
  "init_state stdin =
     \<lparr>vars = [], arrays = [], funcs = [], mem = (\<lambda>_. 0), data_stack = [],
      out = [], err = [], inp = stdin\<rparr>"

text \<open>
  What a statement does to the run: it returns the index of the next line, or the
  process exits with a status, or (\<open>Undef\<close>) the C program has left defined behaviour:
  it reads a token slot that was never written, writes behind a buffer or casts a
  number that does not fit.
\<close>

datatype outcome = Next nat state | Exit nat state | Undef

subsection \<open>Variable and array access\<close>

definition find_var :: "string \<Rightarrow> state \<Rightarrow> nat option" where
  "find_var name s = index_from 0 name (map fst (vars s))"

text \<open>
  \<^verbatim>\<open>get_or_create_var\<close>: the slot of the variable and the state with that slot;
  \<open>None\<close> when the name is new and the table is full, where the C function prints its
  message and exits with status 1 (\<open>too_many_vars\<close>).
\<close>

definition get_or_create_var :: "string \<Rightarrow> state \<Rightarrow> (nat \<times> state) option" where
  "get_or_create_var name s =
     (case find_var name s of
        Some i \<Rightarrow> Some (i, s)
      | None \<Rightarrow>
          if length (vars s) < MAX_VARS
          then Some (length (vars s),
                     s\<lparr>vars := vars s @ [(take (MAX_NAME - 1) name, zero_value)]\<rparr>)
          else None)"

definition too_many_vars :: "state \<Rightarrow> outcome" where
  "too_many_vars s = Exit 1 (s\<lparr>err := err s @ ''Error: too many variables'' @ [newline]\<rparr>)"

definition with_var :: "string \<Rightarrow> state \<Rightarrow> (nat \<Rightarrow> state \<Rightarrow> outcome) \<Rightarrow> outcome" where
  "with_var name s k =
     (case get_or_create_var name s of
        None \<Rightarrow> too_many_vars s
      | Some (i, s1) \<Rightarrow> k i s1)"

text \<open>Reading and writing through a \<^verbatim>\<open>Var *\<close>.\<close>

definition var_val :: "nat \<Rightarrow> state \<Rightarrow> Value" where
  "var_val i s = snd (vars s ! i)"

definition upd_var :: "nat \<Rightarrow> (Value \<Rightarrow> Value) \<Rightarrow> state \<Rightarrow> state" where
  "upd_var i f s = s\<lparr>vars := (vars s)[i := (fst (vars s ! i), f (snd (vars s ! i)))]\<rparr>"

definition set_number :: "real \<Rightarrow> Value \<Rightarrow> Value" where
  "set_number x v = v\<lparr>vtype := TYPE_NUM, num := x\<rparr>"

definition find_array :: "string \<Rightarrow> state \<Rightarrow> nat option" where
  "find_array name s = index_from 0 name (map fst (arrays s))"

definition get_or_create_array :: "string \<Rightarrow> state \<Rightarrow> (nat \<times> state) option" where
  "get_or_create_array name s =
     (case find_array name s of
        Some i \<Rightarrow> Some (i, s)
      | None \<Rightarrow>
          if length (arrays s) < MAX_ARRAYS
          then Some (length (arrays s),
                     s\<lparr>arrays := arrays s
                          @ [(take (MAX_NAME - 1) name, \<lparr>data = (\<lambda>_. zero_value), size = 0\<rparr>)]\<rparr>)
          else None)"

definition too_many_arrays :: "state \<Rightarrow> outcome" where
  "too_many_arrays s = Exit 1 (s\<lparr>err := err s @ ''Error: too many arrays'' @ [newline]\<rparr>)"

definition with_array :: "string \<Rightarrow> state \<Rightarrow> (nat \<Rightarrow> state \<Rightarrow> outcome) \<Rightarrow> outcome" where
  "with_array name s k =
     (case get_or_create_array name s of
        None \<Rightarrow> too_many_arrays s
      | Some (i, s1) \<Rightarrow> k i s1)"

definition upd_array :: "nat \<Rightarrow> (Array \<Rightarrow> Array) \<Rightarrow> state \<Rightarrow> state" where
  "upd_array i f s =
     s\<lparr>arrays := (arrays s)[i := (fst (arrays s ! i), f (snd (arrays s ! i)))]\<rparr>"

subsection \<open>Value resolution\<close>

text \<open>
  \<^verbatim>\<open>resolve\<close>: a token that starts with a double quote is a text literal, its first
  and its last character dropped; a token that \<^verbatim>\<open>strtod\<close> reads to its end is a
  number; the name of a variable is its value; anything else is the token as a text.
\<close>

definition resolve :: "state \<Rightarrow> string \<Rightarrow> Value" where
  "resolve s token =
     (if token \<noteq> [] \<and> hd token = dquote
      then \<lparr>vtype = TYPE_STR, num = 0,
            str = take (min (length token - 2) 255) (tl token)\<rparr>
      else if snd (strtod token) = []
      then \<lparr>vtype = TYPE_NUM, num = fst (strtod token), str = []\<rparr>
      else case find_var token s of
             Some i \<Rightarrow> var_val i s
           | None \<Rightarrow> \<lparr>vtype = TYPE_STR, num = 0, str = take 255 token\<rparr>)"

definition resolve_num :: "state \<Rightarrow> string \<Rightarrow> real" where
  "resolve_num s token =
     (if vtype (resolve s token) = TYPE_STR then 0 else num (resolve s token))"

text \<open>
  \<^verbatim>\<open>resolve_str\<close> into a buffer of 256 bytes: a number is printed with
  \<^verbatim>\<open>%g\<close>; a text is copied with \<^verbatim>\<open>strncpy(buf, v.str, 255)\<close>, which leaves the
  buffer without its zero byte when the text has 255 characters (\<open>None\<close>).
\<close>

definition resolve_str :: "state \<Rightarrow> string \<Rightarrow> string option" where
  "resolve_str s token =
     (if vtype (resolve s token) = TYPE_NUM then Some (fmt_g (num (resolve s token)))
      else if length (str (resolve s token)) < 255 then Some (str (resolve s token))
      else None)"

definition find_func :: "string \<Rightarrow> state \<Rightarrow> FuncDef option" where
  "find_func name s = find (\<lambda>f. fname f = name) (funcs s)"

section \<open>Condition evaluation\<close>

text \<open>
  The operator after \<^verbatim>\<open>is [not]\<close>, with the index where the right operand starts.
  The tests are those of the C chain, in its order; the empty operator is no match.
\<close>

definition detect_op :: "string list \<Rightarrow> nat \<Rightarrow> string \<times> nat" where
  "detect_op words op_start =
     (let wc = length words in
      if op_start + 3 < wc \<and> words ! op_start = ''greater'' \<and> words ! (op_start + 1) = ''than''
         \<and> words ! (op_start + 2) = ''or'' \<and> words ! (op_start + 3) = ''equal''
         \<and> op_start + 4 < wc \<and> words ! (op_start + 4) = ''to''
      then (''>='', op_start + 5)
      else if op_start + 3 < wc \<and> words ! op_start = ''less'' \<and> words ! (op_start + 1) = ''than''
         \<and> words ! (op_start + 2) = ''or'' \<and> words ! (op_start + 3) = ''equal''
         \<and> op_start + 4 < wc \<and> words ! (op_start + 4) = ''to''
      then (''<='', op_start + 5)
      else if op_start + 2 < wc \<and> words ! op_start = ''greater'' \<and> words ! (op_start + 1) = ''than''
      then (''>'', op_start + 2)
      else if op_start + 2 < wc \<and> words ! op_start = ''less'' \<and> words ! (op_start + 1) = ''than''
      then (''<'', op_start + 2)
      else if op_start + 2 < wc \<and> words ! op_start = ''equal'' \<and> words ! (op_start + 1) = ''to''
      then (''=='', op_start + 2)
      else if op_start < wc \<and> words ! op_start = ''empty''
      then (''empty'', op_start + 1)
      else if op_start < wc \<and> words ! op_start = ''zero''
      then (''zero'', op_start + 1)
      else ([], op_start))"

definition apply_op :: "state \<Rightarrow> string \<Rightarrow> string \<Rightarrow> string \<Rightarrow> bool option" where
  "apply_op s op lhs rhs =
     (if op = ''empty''
      then Some (vtype (resolve s lhs) = TYPE_STR \<and> str (resolve s lhs) = [])
      else if op = ''zero'' then Some (resolve_num s lhs = 0)
      else if op = ''>'' then Some (resolve_num s lhs > resolve_num s rhs)
      else if op = ''<'' then Some (resolve_num s lhs < resolve_num s rhs)
      else if op = ''>='' then Some (resolve_num s lhs \<ge> resolve_num s rhs)
      else if op = ''<='' then Some (resolve_num s lhs \<le> resolve_num s rhs)
      else if op = ''==''
      then (if vtype (resolve s lhs) = TYPE_STR \<or> vtype (resolve s rhs) = TYPE_STR
            then (case (resolve_str s lhs, resolve_str s rhs) of
                    (Some lb, Some rb) \<Rightarrow> Some (lb = rb)
                  | _ \<Rightarrow> None)
            else Some (num (resolve s lhs) = num (resolve s rhs)))
      else Some False)"

text \<open>
  \<^verbatim>\<open>eval_condition\<close>. The condition is copied into a buffer of \<^verbatim>\<open>MAX_LINE\<close>
  bytes, trimmed and cut into at most 32 words (\<open>cond_words\<close>). The operands are built with \<^verbatim>\<open>strcat\<close> in buffers of
  \<^verbatim>\<open>MAX_NAME\<close> bytes: an operand of \<^verbatim>\<open>MAX_NAME\<close> characters or more overruns its
  buffer (\<open>None\<close>).
\<close>

definition cond_words :: "string \<Rightarrow> string list" where
  "cond_words cond_str = strtok_words (trim (take (MAX_LINE - 1) cond_str)) 32"

definition eval_condition :: "state \<Rightarrow> string \<Rightarrow> bool option" where
  "eval_condition s cond_str =
     (let words = cond_words cond_str;
          wc = length words
      in if wc < 3 then Some False
         else case index_from 0 ''is'' words of
                None \<Rightarrow> Some False
              | Some is_idx \<Rightarrow>
                  let lhs = join_words (take is_idx words);
                      neg = (is_idx + 1 < wc \<and> words ! (is_idx + 1) = ''not'');
                      op_start = (if neg then is_idx + 2 else is_idx + 1);
                      op = fst (detect_op words op_start);
                      rhs = join_words (drop (snd (detect_op words op_start)) words)
                  in if MAX_NAME \<le> length lhs \<or> MAX_NAME \<le> length rhs then None
                     else (case apply_op s op lhs rhs of
                             None \<Rightarrow> None
                           | Some result \<Rightarrow> Some (if neg then \<not> result else result)))"

section \<open>Block resolution\<close>

definition opens_block :: "string \<Rightarrow> bool" where
  "opens_block l = (startswith l ''if '' \<or> startswith l ''while '' \<or> startswith l ''repeat ''
                    \<or> startswith l ''define '')"

text \<open>
  The loop of \<^verbatim>\<open>find_end\<close> from line \<open>i\<close> with the current depth. The program is
  the list of its lines; \<^verbatim>\<open>trim\<close> cuts the trailing white space of a stored line
  in place, which no reader can see since every reader trims the line first.
\<close>

function find_end_loop :: "string list \<Rightarrow> string \<Rightarrow> nat \<Rightarrow> int \<Rightarrow> nat" where
  "find_end_loop lines end_keyword i depth =
     (if i < length lines
      then let l = trim (lines ! i);
               d1 = (if opens_block l then depth + 1 else depth);
               d2 = (if startswith l end_keyword \<or> startswith l ''end '' then d1 - 1 else d1)
           in if d2 = 0 then i else find_end_loop lines end_keyword (i + 1) d2
      else length lines)"
  by pat_completeness auto
termination
  by (relation "measure (\<lambda>(lines, k, i, d). length lines - i)") auto

declare find_end_loop.simps [simp del]

definition find_end :: "string list \<Rightarrow> nat \<Rightarrow> string \<Rightarrow> nat" where
  "find_end lines from end_keyword = find_end_loop lines end_keyword (from + 1) 1"

text \<open>The search of \<^verbatim>\<open>exec_line\<close> for an \<^verbatim>\<open>otherwise\<close> at the depth of its \<^verbatim>\<open>if\<close>.\<close>

function find_otherwise :: "string list \<Rightarrow> nat \<Rightarrow> nat \<Rightarrow> int \<Rightarrow> nat option" where
  "find_otherwise lines end_if i depth =
     (if i < end_if \<and> i < length lines
      then let l = trim (lines ! i);
               d1 = (if opens_block l then depth + 1 else depth);
               d2 = (if startswith l ''end '' then d1 - 1 else d1)
           in if d2 = 1 \<and> startswith l ''otherwise'' then Some i
              else find_otherwise lines end_if (i + 1) d2
      else None)"
  by pat_completeness auto
termination
  by (relation "measure (\<lambda>(lines, e, i, d). length lines - i)") auto

declare find_otherwise.simps [simp del]

section \<open>Statements without a body\<close>

text \<open>
  Each definition of this section is the body of one branch of \<^verbatim>\<open>exec_line\<close>, under
  the name of its statement; \<open>tok\<close> is the token array, \<open>tc\<close> its length and \<open>idx\<close> the
  index of the line. The tests that select the branch are in \<open>exec_line\<close> below.
\<close>

text \<open>
  \<^verbatim>\<open>pow\<close> and \<^verbatim>\<open>sqrt\<close> on the finite numbers; \<open>None\<close> where C returns a NaN
  or an infinity.
\<close>

definition c_pow :: "real \<Rightarrow> real \<Rightarrow> real option" where
  "c_pow x y =
     (if y = 0 then Some 1
      else if 0 < x then Some (x powr y)
      else if x = 0 then (if 0 < y then Some 0 else None)
      else if y = of_int \<lfloor>y\<rfloor> then Some (x powi \<lfloor>y\<rfloor>)
      else None)"

definition c_sqrt :: "real \<Rightarrow> real option" where
  "c_sqrt x = (if 0 \<le> x then Some (sqrt x) else None)"

definition c_modulo :: "real \<Rightarrow> real \<Rightarrow> real option" where
  "c_modulo x y =
     (case (to_long x, to_long y) of
        (Some a, Some b) \<Rightarrow>
          if b = 0 then Some 0
          else if a = - (2 ^ 63) \<and> b = - 1 then None
          else Some (of_int (c_rem a b))
      | _ \<Rightarrow> None)"

text \<open>
  The value that \<^verbatim>\<open>set <var> to ...\<close> stores: the resolved fourth token, changed by
  the operator that follows it, if one does. \<open>None\<close> is for the undefined cases.
\<close>

definition set_value :: "string list \<Rightarrow> state \<Rightarrow> Value option" where
  "set_value tok s =
     (let tc = length tok; val = resolve s (tok ! 3)
      in if tc > 4
         then if tok ! 4 = ''plus'' \<and> tc \<ge> 6
              then Some (set_number (resolve_num s (tok ! 3) + resolve_num s (tok ! 5)) val)
              else if tok ! 4 = ''minus'' \<and> tc \<ge> 6
              then Some (set_number (resolve_num s (tok ! 3) - resolve_num s (tok ! 5)) val)
              else if tok ! 4 = ''times'' \<and> tc \<ge> 6
              then Some (set_number (resolve_num s (tok ! 3) * resolve_num s (tok ! 5)) val)
              else if tok ! 4 = ''divided'' \<and> tc \<ge> 7 \<and> tok ! 5 = ''by''
              then Some (set_number (if resolve_num s (tok ! 6) \<noteq> 0
                                     then resolve_num s (tok ! 3) / resolve_num s (tok ! 6)
                                     else 0) val)
              else if tok ! 4 = ''modulo'' \<and> tc \<ge> 6
              then map_option (\<lambda>r. set_number r val)
                     (c_modulo (resolve_num s (tok ! 3)) (resolve_num s (tok ! 5)))
              else if tok ! 4 = ''power'' \<and> tc \<ge> 6
              then map_option (\<lambda>r. set_number r val)
                     (c_pow (resolve_num s (tok ! 3)) (resolve_num s (tok ! 5)))
              else if tok ! 4 = ''concatenated'' \<and> tc \<ge> 7 \<and> tok ! 5 = ''with''
              then (case (resolve_str s (tok ! 3), resolve_str s (tok ! 6)) of
                      (Some lb, Some rb) \<Rightarrow> Some (val\<lparr>vtype := TYPE_STR, str := take 255 (lb @ rb)\<rparr>)
                    | _ \<Rightarrow> None)
              else Some val
         else Some val)"

definition exec_set :: "string list \<Rightarrow> nat \<Rightarrow> state \<Rightarrow> outcome" where
  "exec_set tok idx s =
     with_var (tok ! 1) s (\<lambda>v s1.
       case set_value tok s1 of
         None \<Rightarrow> Undef
       | Some val \<Rightarrow> Next (idx + 1) (upd_var v (\<lambda>_. val) s1))"

definition exec_add :: "string list \<Rightarrow> nat \<Rightarrow> state \<Rightarrow> outcome" where
  "exec_add tok idx s =
     with_var (tok ! 5) s (\<lambda>r s1.
       Next (idx + 1)
         (upd_var r (set_number (resolve_num s1 (tok ! 1) + resolve_num s1 (tok ! 3))) s1))"

definition exec_subtract :: "string list \<Rightarrow> nat \<Rightarrow> state \<Rightarrow> outcome" where
  "exec_subtract tok idx s =
     with_var (tok ! 5) s (\<lambda>r s1.
       Next (idx + 1)
         (upd_var r (set_number (resolve_num s1 (tok ! 3) - resolve_num s1 (tok ! 1))) s1))"

definition exec_multiply :: "string list \<Rightarrow> nat \<Rightarrow> state \<Rightarrow> outcome" where
  "exec_multiply tok idx s =
     with_var (tok ! 5) s (\<lambda>r s1.
       Next (idx + 1)
         (upd_var r (set_number (resolve_num s1 (tok ! 1) * resolve_num s1 (tok ! 3))) s1))"

definition exec_divide :: "string list \<Rightarrow> nat \<Rightarrow> state \<Rightarrow> outcome" where
  "exec_divide tok idx s =
     with_var (tok ! 5) s (\<lambda>r s1.
       let d = resolve_num s1 (tok ! 3)
       in Next (idx + 1)
            (upd_var r (set_number (if d \<noteq> 0 then resolve_num s1 (tok ! 1) / d else 0)) s1))"

definition step_by :: "string list \<Rightarrow> state \<Rightarrow> real" where
  "step_by tok s = (if length tok \<ge> 4 \<and> tok ! 2 = ''by'' then resolve_num s (tok ! 3) else 1)"

definition exec_increment :: "string list \<Rightarrow> nat \<Rightarrow> state \<Rightarrow> outcome" where
  "exec_increment tok idx s =
     with_var (tok ! 1) s (\<lambda>v s1.
       Next (idx + 1) (upd_var v (\<lambda>x. x\<lparr>vtype := TYPE_NUM, num := num x + step_by tok s1\<rparr>) s1))"

definition exec_decrement :: "string list \<Rightarrow> nat \<Rightarrow> state \<Rightarrow> outcome" where
  "exec_decrement tok idx s =
     with_var (tok ! 1) s (\<lambda>v s1.
       Next (idx + 1) (upd_var v (\<lambda>x. x\<lparr>vtype := TYPE_NUM, num := num x - step_by tok s1\<rparr>) s1))"

text \<open>
  The text that the loop of \<^verbatim>\<open>print\<close> writes for the tokens after the keyword:
  \<open>first\<close> is its flag. \<open>None\<close> when a token has no defined text.
\<close>

fun print_text :: "state \<Rightarrow> bool \<Rightarrow> string list \<Rightarrow> string option" where
  "print_text s first [] = Some []"
| "print_text s first (t # ts) =
     (if t = ''and'' then print_text s first ts
      else case resolve_str s t of
             None \<Rightarrow> None
           | Some x \<Rightarrow> map_option (\<lambda>r. (if first then [] else '' '') @ x @ r)
                        (print_text s False ts))"

definition exec_print :: "string list \<Rightarrow> nat \<Rightarrow> state \<Rightarrow> outcome" where
  "exec_print tok idx s =
     (case print_text s True (tl tok) of
        None \<Rightarrow> Undef
      | Some t \<Rightarrow> Next (idx + 1) (s\<lparr>out := out s @ t @ [newline]\<rparr>))"

text \<open>The loop of \<^verbatim>\<open>say\<close>: \<^verbatim>\<open>printf("%s ", ...)\<close> for each token.\<close>

fun say_text :: "state \<Rightarrow> string list \<Rightarrow> string option" where
  "say_text s [] = Some []"
| "say_text s (t # ts) =
     (if t = ''and'' then say_text s ts
      else case resolve_str s t of
             None \<Rightarrow> None
           | Some x \<Rightarrow> map_option (\<lambda>r. x @ '' '' @ r) (say_text s ts))"

definition exec_say :: "string list \<Rightarrow> nat \<Rightarrow> state \<Rightarrow> outcome" where
  "exec_say tok idx s =
     (case say_text s (tl tok) of
        None \<Rightarrow> Undef
      | Some t \<Rightarrow> Next (idx + 1) (s\<lparr>out := out s @ t @ [newline]\<rparr>))"

text \<open>
  \<^verbatim>\<open>fgets(input, n, stdin)\<close>: the characters up to and with the next newline, at most
  \<open>n - 1\<close> of them, and what is left of the input; \<open>None\<close> at the end of the input.
\<close>

definition fgets :: "nat \<Rightarrow> string \<Rightarrow> (string \<times> string) option" where
  "fgets n stdin =
     (if stdin = [] then None
      else let l = takeWhile (\<lambda>c. c \<noteq> newline) stdin;
               got = take (n - 1) (if length l < length stdin then l @ [newline] else l)
           in Some (got, drop (length got) stdin))"

definition exec_ask :: "string list \<Rightarrow> nat \<Rightarrow> state \<Rightarrow> outcome" where
  "exec_ask tok idx s =
     (case index_from 1 ''into'' (tl tok) of
        None \<Rightarrow> Next (idx + 1) s
      | Some into_idx \<Rightarrow>
          if into_idx > 0 \<and> into_idx + 1 < length tok
          then (case resolve_str s (tok ! 1) of
                  None \<Rightarrow> Undef
                | Some prompt \<Rightarrow>
                    (case fgets 256 (inp s) of
                       None \<Rightarrow> Next (idx + 1) (s\<lparr>out := out s @ prompt @ '' ''\<rparr>)
                     | Some (got, rest) \<Rightarrow>
                         with_var (tok ! (into_idx + 1))
                           (s\<lparr>out := out s @ prompt @ '' '', inp := rest\<rparr>)
                           (\<lambda>v s1.
                              let input = takeWhile (\<lambda>c. c \<noteq> newline) got
                              in if snd (strtod input) = [] \<and> input \<noteq> []
                                 then Next (idx + 1)
                                        (upd_var v (set_number (fst (strtod input))) s1)
                                 else Next (idx + 1)
                                        (upd_var v (\<lambda>x. x\<lparr>vtype := TYPE_STR, str := take 255 input\<rparr>)
                                           s1))))
          else Next (idx + 1) s)"

text \<open>
  The entry that \<^verbatim>\<open>define\<close> writes, in \<^verbatim>\<open>exec_line\<close> and in \<^verbatim>\<open>collect_funcs\<close>
  alike: the parameters are the tokens before the first \<^verbatim>\<open>as\<close> (searched from token
  2), after an optional \<^verbatim>\<open>with\<close>, at most eight.
\<close>

definition make_func :: "string list \<Rightarrow> nat \<Rightarrow> nat \<Rightarrow> FuncDef" where
  "make_func tok idx end_def =
     \<lparr>fname = take (MAX_NAME - 1) (tok ! 1),
      start_line = idx + 1,
      end_line = end_def,
      params =
        (case index_from 2 ''as'' (drop 2 tok) of
           None \<Rightarrow> []
         | Some as_idx \<Rightarrow>
             let param_start = (if length tok > 2 \<and> tok ! 2 = ''with'' then 3 else 2)
             in take 8 (map (take (MAX_NAME - 1))
                          (take (as_idx - param_start) (drop param_start tok))))\<rparr>"

text \<open>
  \<^verbatim>\<open>funcs[func_count++]\<close> has no bound check: the entry after the last one of the
  table is written outside of it.
\<close>

definition exec_define :: "string list \<Rightarrow> string list \<Rightarrow> nat \<Rightarrow> state \<Rightarrow> outcome" where
  "exec_define lines tok idx s =
     (let end_def = find_end lines idx ''end define''
      in if length (funcs s) < MAX_FUNCS
         then Next (end_def + 1) (s\<lparr>funcs := funcs s @ [make_func tok idx end_def]\<rparr>)
         else Undef)"

definition exec_return :: "string list \<Rightarrow> nat \<Rightarrow> state \<Rightarrow> outcome" where
  "exec_return tok idx s =
     with_var ''return'' s (\<lambda>rv s1. Next (idx + 1) (upd_var rv (\<lambda>_. resolve s1 (tok ! 1)) s1))"

definition exec_push :: "string list \<Rightarrow> nat \<Rightarrow> state \<Rightarrow> outcome" where
  "exec_push tok idx s =
     (if length (data_stack s) < MAX_STACK
      then Next (idx + 1) (s\<lparr>data_stack := data_stack s @ [resolve_num s (tok ! 1)]\<rparr>)
      else Next (idx + 1) s)"

definition exec_pop :: "string list \<Rightarrow> nat \<Rightarrow> state \<Rightarrow> outcome" where
  "exec_pop tok idx s =
     with_var (tok ! 4) s (\<lambda>v s1.
       if length (data_stack s1) > 0
       then Next (idx + 1)
              (upd_var v (set_number (last (data_stack s1)))
                 (s1\<lparr>data_stack := butlast (data_stack s1)\<rparr>))
       else Next (idx + 1) (upd_var v (set_number 0) s1))"

definition exec_store :: "string list \<Rightarrow> nat \<Rightarrow> state \<Rightarrow> outcome" where
  "exec_store tok idx s =
     (case to_int (resolve_num s (tok ! 4)) of
        None \<Rightarrow> Undef
      | Some addr \<Rightarrow>
          if addr \<ge> 0 \<and> addr < int MAX_MEM
          then Next (idx + 1) (s\<lparr>mem := (mem s)(nat addr := resolve_num s (tok ! 1))\<rparr>)
          else Next (idx + 1) s)"

definition exec_load :: "string list \<Rightarrow> nat \<Rightarrow> state \<Rightarrow> outcome" where
  "exec_load tok idx s =
     (case to_int (resolve_num s (tok ! 3)) of
        None \<Rightarrow> Undef
      | Some addr \<Rightarrow>
          with_var (tok ! 5) s (\<lambda>v s1.
            Next (idx + 1)
              (upd_var v (set_number (if addr \<ge> 0 \<and> addr < int MAX_MEM
                                      then mem s1 (nat addr) else 0)) s1)))"

definition exec_create :: "string list \<Rightarrow> nat \<Rightarrow> state \<Rightarrow> outcome" where
  "exec_create tok idx s = with_array (tok ! 2) s (\<lambda>a s1. Next (idx + 1) s1)"

definition exec_append :: "string list \<Rightarrow> nat \<Rightarrow> state \<Rightarrow> outcome" where
  "exec_append tok idx s =
     with_array (tok ! 4) s (\<lambda>a s1.
       if size (snd (arrays s1 ! a)) < MAX_ARRAY_SIZE
       then Next (idx + 1)
              (upd_array a (\<lambda>x. x\<lparr>data := (data x)(size x := resolve s1 (tok ! 1)),
                                    size := size x + 1\<rparr>) s1)
       else Next (idx + 1) s1)"

text \<open>
  \<^verbatim>\<open>get element\<close>, \<^verbatim>\<open>set element\<close> and \<^verbatim>\<open>size of array\<close> are selected with one
  token less than they read: on such a line the last token slot holds whatever an
  earlier line left there.
\<close>

definition exec_get :: "string list \<Rightarrow> nat \<Rightarrow> state \<Rightarrow> outcome" where
  "exec_get tok idx s =
     (case to_int (resolve_num s (tok ! 2)) of
        None \<Rightarrow> Undef
      | Some i \<Rightarrow>
          if length tok < 8 then Undef
          else with_var (tok ! 7) s (\<lambda>v s1.
                 case find_array (tok ! 5) s of
                   None \<Rightarrow> Next (idx + 1) (upd_var v (set_number 0) s1)
                 | Some a \<Rightarrow>
                     if i \<ge> 0 \<and> i < int (size (snd (arrays s ! a)))
                     then Next (idx + 1) (upd_var v (\<lambda>_. data (snd (arrays s ! a)) (nat i)) s1)
                     else Next (idx + 1) (upd_var v (set_number 0) s1)))"

definition exec_set_element :: "string list \<Rightarrow> nat \<Rightarrow> state \<Rightarrow> outcome" where
  "exec_set_element tok idx s =
     (case to_int (resolve_num s (tok ! 2)) of
        None \<Rightarrow> Undef
      | Some i \<Rightarrow>
          with_array (tok ! 5) s (\<lambda>a s1.
            if i \<ge> 0 \<and> i < int MAX_ARRAY_SIZE
            then if length tok < 8 then Undef
                 else Next (idx + 1)
                        (upd_array a (\<lambda>x. x\<lparr>data := (data x)(nat i := resolve s1 (tok ! 7)),
                                              size := (if nat i \<ge> size x then nat i + 1 else size x)\<rparr>)
                           s1)
            else Next (idx + 1) s1))"

definition exec_size :: "string list \<Rightarrow> nat \<Rightarrow> state \<Rightarrow> outcome" where
  "exec_size tok idx s =
     (if length tok < 6 then Undef
      else with_var (tok ! 5) s (\<lambda>v s1.
             Next (idx + 1)
               (upd_var v (set_number (case find_array (tok ! 3) s of
                                         None \<Rightarrow> 0
                                       | Some a \<Rightarrow> real (size (snd (arrays s ! a))))) s1)))"

definition exec_sqrt :: "string list \<Rightarrow> nat \<Rightarrow> state \<Rightarrow> outcome" where
  "exec_sqrt tok idx s =
     with_var (tok ! 5) s (\<lambda>v s1.
       case c_sqrt (resolve_num s1 (tok ! 3)) of
         None \<Rightarrow> Undef
       | Some r \<Rightarrow> Next (idx + 1) (upd_var v (set_number r) s1))"

definition exec_abs :: "string list \<Rightarrow> nat \<Rightarrow> state \<Rightarrow> outcome" where
  "exec_abs tok idx s =
     with_var (tok ! 5) s (\<lambda>v s1.
       Next (idx + 1) (upd_var v (set_number \<bar>resolve_num s1 (tok ! 3)\<bar>) s1))"

definition exec_length :: "string list \<Rightarrow> nat \<Rightarrow> state \<Rightarrow> outcome" where
  "exec_length tok idx s =
     (case resolve_str s (tok ! 2) of
        None \<Rightarrow> Undef
      | Some sb \<Rightarrow>
          with_var (tok ! 4) s (\<lambda>v s1.
            Next (idx + 1) (upd_var v (set_number (real (length sb))) s1)))"

definition to_number :: "Value \<Rightarrow> Value" where
  "to_number v = (if vtype v = TYPE_STR then v\<lparr>num := atof (str v), vtype := TYPE_NUM\<rparr> else v)"

definition to_string :: "Value \<Rightarrow> Value" where
  "to_string v = (if vtype v = TYPE_NUM then v\<lparr>str := fmt_g (num v), vtype := TYPE_STR\<rparr> else v)"

definition exec_convert_number :: "string list \<Rightarrow> nat \<Rightarrow> state \<Rightarrow> outcome" where
  "exec_convert_number tok idx s =
     with_var (tok ! 1) s (\<lambda>v s1. Next (idx + 1) (upd_var v to_number s1))"

definition exec_convert_string :: "string list \<Rightarrow> nat \<Rightarrow> state \<Rightarrow> outcome" where
  "exec_convert_string tok idx s =
     with_var (tok ! 1) s (\<lambda>v s1. Next (idx + 1) (upd_var v to_string s1))"

definition exec_unknown :: "string \<Rightarrow> nat \<Rightarrow> state \<Rightarrow> outcome" where
  "exec_unknown line idx s =
     Next (idx + 1)
       (s\<lparr>err := err s @ ''Warning: unknown instruction on line '' @ show_nat (idx + 1)
                  @ '': '' @ [squote] @ line @ [squote, newline]\<rparr>)"

section \<open>The executor\<close>

text \<open>
  \<^verbatim>\<open>exec_line\<close> and \<^verbatim>\<open>execute\<close> call each other, and a \<^verbatim>\<open>while\<close> loop or a
  recursive \<^verbatim>\<open>call\<close> may never return: the model counts fuel, and \<open>None\<close> is a run
  that has not returned within its fuel. In \<open>exec_line\<close> the parameter \<open>ex\<close> stands for
  the calls \<^verbatim>\<open>execute(start, end_excl)\<close> and \<open>n\<close> bounds the passes of a loop.
\<close>

text \<open>
  The loops of \<^verbatim>\<open>while\<close>, \<^verbatim>\<open>repeat\<close> and \<^verbatim>\<open>for\<close>: \<open>body\<close> is the call of
  \<^verbatim>\<open>execute\<close> on the lines of the block, whose returned index the C code drops;
  \<open>nxt\<close> is the index that the statement returns after the loop.
\<close>

fun while_loop ::
  "nat \<Rightarrow> (state \<Rightarrow> bool option) \<Rightarrow> (state \<Rightarrow> outcome option) \<Rightarrow> nat \<Rightarrow> state \<Rightarrow> outcome option"
where
  "while_loop 0 c body nxt s = None"
| "while_loop (Suc k) c body nxt s =
     (case c s of
        None \<Rightarrow> Some Undef
      | Some False \<Rightarrow> Some (Next nxt s)
      | Some True \<Rightarrow>
          (case body s of
             Some (Next j s') \<Rightarrow> while_loop k c body nxt s'
           | r \<Rightarrow> r))"

fun repeat_loop ::
  "nat \<Rightarrow> (state \<Rightarrow> outcome option) \<Rightarrow> nat \<Rightarrow> state \<Rightarrow> outcome option"
where
  "repeat_loop 0 body nxt s = Some (Next nxt s)"
| "repeat_loop (Suc k) body nxt s =
     (case body s of
        Some (Next j s') \<Rightarrow> repeat_loop k body nxt s'
      | r \<Rightarrow> r)"

text \<open>
  \<^verbatim>\<open>for (d = from; d <= to; d += step)\<close> when \<open>up\<close>, and with \<^verbatim>\<open>d >= to\<close>
  otherwise; each pass writes \<open>d\<close> into the number of the loop variable \<open>v\<close>.
\<close>

fun for_loop ::
  "nat \<Rightarrow> bool \<Rightarrow> real \<Rightarrow> real \<Rightarrow> real \<Rightarrow> nat \<Rightarrow> (state \<Rightarrow> outcome option) \<Rightarrow> nat \<Rightarrow> state
     \<Rightarrow> outcome option"
where
  "for_loop 0 up d to step v body nxt s = None"
| "for_loop (Suc k) up d to step v body nxt s =
     (if (if up then d \<le> to else d \<ge> to)
      then (case body (upd_var v (\<lambda>x. x\<lparr>num := d\<rparr>) s) of
              Some (Next j s') \<Rightarrow> for_loop k up (d + step) to step v body nxt s'
            | r \<Rightarrow> r)
      else Some (Next nxt s))"

text \<open>The condition text of \<^verbatim>\<open>if\<close> and \<^verbatim>\<open>while\<close>: the tokens before \<^verbatim>\<open>then\<close>.\<close>

definition cond_text :: "string list \<Rightarrow> nat \<Rightarrow> string" where
  "cond_text tok then_idx = join_words (take (then_idx - 1) (tl tok))"

definition exec_if ::
  "(nat \<Rightarrow> nat \<Rightarrow> state \<Rightarrow> outcome option) \<Rightarrow> string list \<Rightarrow> string list \<Rightarrow> nat \<Rightarrow> state
     \<Rightarrow> outcome option"
where
  "exec_if ex lines tok idx s =
     (case index_from 1 ''then'' (tl tok) of
        None \<Rightarrow> Some (Next (idx + 1) s)
      | Some then_idx \<Rightarrow>
          let end_if = find_end lines idx ''end if'';
              otherwise = find_otherwise lines end_if (idx + 1) 1
          in (case eval_condition s (cond_text tok then_idx) of
                None \<Rightarrow> Some Undef
              | Some cond_true \<Rightarrow>
                  if cond_true
                  then (case ex (idx + 1) (case otherwise of Some ow \<Rightarrow> ow | None \<Rightarrow> end_if) s of
                          Some (Next j s') \<Rightarrow> Some (Next (end_if + 1) s')
                        | r \<Rightarrow> r)
                  else (case otherwise of
                          Some ow \<Rightarrow>
                            (case ex (ow + 1) end_if s of
                               Some (Next j s') \<Rightarrow> Some (Next (end_if + 1) s')
                             | r \<Rightarrow> r)
                        | None \<Rightarrow> Some (Next (end_if + 1) s))))"

definition exec_while ::
  "(nat \<Rightarrow> nat \<Rightarrow> state \<Rightarrow> outcome option) \<Rightarrow> nat \<Rightarrow> string list \<Rightarrow> string list \<Rightarrow> nat \<Rightarrow> state
     \<Rightarrow> outcome option"
where
  "exec_while ex n lines tok idx s =
     (case index_from 1 ''then'' (tl tok) of
        None \<Rightarrow> Some (Next (idx + 1) s)
      | Some then_idx \<Rightarrow>
          let end_while = find_end lines idx ''end while''
          in while_loop n (\<lambda>s'. eval_condition s' (cond_text tok then_idx))
               (ex (idx + 1) end_while) (end_while + 1) s)"

definition exec_repeat ::
  "(nat \<Rightarrow> nat \<Rightarrow> state \<Rightarrow> outcome option) \<Rightarrow> string list \<Rightarrow> string list \<Rightarrow> nat \<Rightarrow> state
     \<Rightarrow> outcome option"
where
  "exec_repeat ex lines tok idx s =
     (case to_int (resolve_num s (tok ! 1)) of
        None \<Rightarrow> Some Undef
      | Some n \<Rightarrow>
          let end_rep = find_end lines idx ''end repeat''
          in repeat_loop (nat n) (ex (idx + 1) end_rep) (end_rep + 1) s)"

definition exec_for ::
  "(nat \<Rightarrow> nat \<Rightarrow> state \<Rightarrow> outcome option) \<Rightarrow> nat \<Rightarrow> string list \<Rightarrow> string list \<Rightarrow> nat \<Rightarrow> state
     \<Rightarrow> outcome option"
where
  "exec_for ex n lines tok idx s =
     (let from = resolve_num s (tok ! 3);
          to = resolve_num s (tok ! 5);
          step = (if length tok \<ge> 9 \<and> tok ! 6 = ''step'' then resolve_num s (tok ! 7) else 1);
          end_for = find_end lines idx ''end for''
      in case get_or_create_var (tok ! 1) s of
           None \<Rightarrow> Some (too_many_vars s)
         | Some (v, s1) \<Rightarrow>
             for_loop n (step > 0) from to step v (ex (idx + 1) end_for) (end_for + 1)
               (upd_var v (\<lambda>x. x\<lparr>vtype := TYPE_NUM\<rparr>) s1))"

text \<open>
  The parameters of a call are bound one after the other, each argument resolved after
  the variable of its parameter exists: \<open>Inr\<close> the state with all bindings, \<open>Inl\<close> the
  state in which a new parameter finds the variable table full.
\<close>

fun bind_params :: "string list \<Rightarrow> string list \<Rightarrow> state \<Rightarrow> state + state" where
  "bind_params (p # ps) (a # as) s =
     (case get_or_create_var p s of
        None \<Rightarrow> Inl s
      | Some (pv, s1) \<Rightarrow> bind_params ps as (upd_var pv (\<lambda>_. resolve s1 a) s1))"
| "bind_params ps as s = Inr s"

definition exec_call ::
  "(nat \<Rightarrow> nat \<Rightarrow> state \<Rightarrow> outcome option) \<Rightarrow> string list \<Rightarrow> nat \<Rightarrow> state \<Rightarrow> outcome option"
where
  "exec_call ex tok idx s =
     (case find_func (tok ! 1) s of
        None \<Rightarrow>
          Some (Next (idx + 1)
                  (s\<lparr>err := err s @ ''Error: undefined function '' @ [squote] @ tok ! 1
                             @ [squote, newline]\<rparr>))
      | Some f \<Rightarrow>
          let arg_start = (if length tok > 2 \<and> tok ! 2 = ''with'' then 3 else 2)
          in (case bind_params (params f) (drop arg_start tok) s of
                Inl sf \<Rightarrow> Some (too_many_vars sf)
              | Inr s1 \<Rightarrow>
                  (case ex (start_line f) (end_line f) s1 of
                     Some (Next j s') \<Rightarrow> Some (Next (idx + 1) s')
                   | r \<Rightarrow> r)))"

text \<open>
  \<^verbatim>\<open>exec_line\<close>: the tests of the C function, in its order. The line is copied into
  a buffer of \<^verbatim>\<open>MAX_LINE\<close> bytes and trimmed (\<open>line_text\<close>); at most 32 tokens are
  read.
\<close>

definition line_text :: "string list \<Rightarrow> nat \<Rightarrow> string" where
  "line_text lines idx = trim (take (MAX_LINE - 1) (lines ! idx))"

definition exec_line ::
  "(nat \<Rightarrow> nat \<Rightarrow> state \<Rightarrow> outcome option) \<Rightarrow> nat \<Rightarrow> string list \<Rightarrow> nat \<Rightarrow> state \<Rightarrow> outcome option"
where
  "exec_line ex n lines idx s =
     (let line = line_text lines idx;
          tok = tokenize line 32;
          tc = length tok
      in if line = [] \<or> startswith line ''#'' \<or> startswith line ''//'' then Some (Next (idx + 1) s)
         else if tc = 0 then Some (Next (idx + 1) s)
         else if tok ! 0 = ''set'' \<and> tc \<ge> 4 \<and> tok ! 2 = ''to'' then Some (exec_set tok idx s)
         else if tok ! 0 = ''add'' \<and> tc \<ge> 5 \<and> tok ! 2 = ''and'' \<and> tok ! 4 = ''into'' \<and> tc \<ge> 6
         then Some (exec_add tok idx s)
         else if tok ! 0 = ''subtract'' \<and> tc \<ge> 6 \<and> tok ! 2 = ''from'' \<and> tok ! 4 = ''into''
         then Some (exec_subtract tok idx s)
         else if tok ! 0 = ''multiply'' \<and> tc \<ge> 6 \<and> tok ! 2 = ''by'' \<and> tok ! 4 = ''into''
         then Some (exec_multiply tok idx s)
         else if tok ! 0 = ''divide'' \<and> tc \<ge> 6 \<and> tok ! 2 = ''by'' \<and> tok ! 4 = ''into''
         then Some (exec_divide tok idx s)
         else if tok ! 0 = ''increment'' \<and> tc \<ge> 2 then Some (exec_increment tok idx s)
         else if tok ! 0 = ''decrement'' \<and> tc \<ge> 2 then Some (exec_decrement tok idx s)
         else if tok ! 0 = ''print'' then Some (exec_print tok idx s)
         else if tok ! 0 = ''say'' then Some (exec_say tok idx s)
         else if tok ! 0 = ''ask'' \<and> tc \<ge> 4 then Some (exec_ask tok idx s)
         else if tok ! 0 = ''if'' then exec_if ex lines tok idx s
         else if tok ! 0 = ''while'' then exec_while ex n lines tok idx s
         else if tok ! 0 = ''repeat'' \<and> tc \<ge> 3 \<and> tok ! 2 = ''times''
         then exec_repeat ex lines tok idx s
         else if tok ! 0 = ''for'' \<and> tc \<ge> 6 \<and> tok ! 2 = ''from'' \<and> tok ! 4 = ''to''
         then exec_for ex n lines tok idx s
         else if tok ! 0 = ''define'' \<and> tc \<ge> 3 then Some (exec_define lines tok idx s)
         else if tok ! 0 = ''call'' \<and> tc \<ge> 2 then exec_call ex tok idx s
         else if tok ! 0 = ''return'' \<and> tc \<ge> 2 then Some (exec_return tok idx s)
         else if tok ! 0 = ''push'' \<and> tc \<ge> 4 \<and> tok ! 2 = ''onto'' \<and> tok ! 3 = ''stack''
         then Some (exec_push tok idx s)
         else if tok ! 0 = ''pop'' \<and> tc \<ge> 5 \<and> tok ! 1 = ''from'' \<and> tok ! 2 = ''stack''
                 \<and> tok ! 3 = ''into''
         then Some (exec_pop tok idx s)
         else if tok ! 0 = ''store'' \<and> tc \<ge> 5 \<and> tok ! 2 = ''at'' \<and> tok ! 3 = ''address''
         then Some (exec_store tok idx s)
         else if tok ! 0 = ''load'' \<and> tc \<ge> 6 \<and> tok ! 1 = ''from'' \<and> tok ! 2 = ''address''
                 \<and> tok ! 4 = ''into''
         then Some (exec_load tok idx s)
         else if tok ! 0 = ''create'' \<and> tc \<ge> 3 \<and> tok ! 1 = ''array''
         then Some (exec_create tok idx s)
         else if tok ! 0 = ''append'' \<and> tc \<ge> 5 \<and> tok ! 2 = ''to'' \<and> tok ! 3 = ''array''
         then Some (exec_append tok idx s)
         else if tok ! 0 = ''get'' \<and> tc \<ge> 7 \<and> tok ! 1 = ''element'' \<and> tok ! 3 = ''of''
                 \<and> tok ! 4 = ''array'' \<and> tok ! 6 = ''into''
         then Some (exec_get tok idx s)
         else if tok ! 0 = ''set'' \<and> tc \<ge> 7 \<and> tok ! 1 = ''element'' \<and> tok ! 3 = ''of''
                 \<and> tok ! 4 = ''array'' \<and> tok ! 6 = ''to''
         then Some (exec_set_element tok idx s)
         else if tok ! 0 = ''size'' \<and> tc \<ge> 5 \<and> tok ! 1 = ''of'' \<and> tok ! 2 = ''array''
                 \<and> tok ! 4 = ''into''
         then Some (exec_size tok idx s)
         else if tok ! 0 = ''square'' \<and> tc \<ge> 6 \<and> tok ! 1 = ''root'' \<and> tok ! 2 = ''of''
                 \<and> tok ! 4 = ''into''
         then Some (exec_sqrt tok idx s)
         else if tok ! 0 = ''absolute'' \<and> tc \<ge> 6 \<and> tok ! 1 = ''value'' \<and> tok ! 2 = ''of''
                 \<and> tok ! 4 = ''into''
         then Some (exec_abs tok idx s)
         else if tok ! 0 = ''length'' \<and> tc \<ge> 5 \<and> tok ! 1 = ''of'' \<and> tok ! 3 = ''into''
         then Some (exec_length tok idx s)
         else if tok ! 0 = ''convert'' \<and> tc \<ge> 4 \<and> tok ! 2 = ''to'' \<and> tok ! 3 = ''number''
         then Some (exec_convert_number tok idx s)
         else if tok ! 0 = ''convert'' \<and> tc \<ge> 4 \<and> tok ! 2 = ''to'' \<and> tok ! 3 = ''string''
         then Some (exec_convert_string tok idx s)
         else if tok ! 0 = ''stop'' \<or> tok ! 0 = ''exit'' then Some (Exit 0 s)
         else if tok ! 0 = ''otherwise'' \<or> startswith (tok ! 0) ''end''
         then Some (Next (idx + 1) s)
         else Some (exec_unknown line idx s))"

text \<open>
  \<^verbatim>\<open>execute\<close>: the lines from \<open>i\<close> up to \<open>end_excl\<close>, each line giving the index of
  the next one.
\<close>

fun execute :: "nat \<Rightarrow> string list \<Rightarrow> nat \<Rightarrow> nat \<Rightarrow> state \<Rightarrow> outcome option" where
  "execute 0 lines i end_excl s = None"
| "execute (Suc n) lines i end_excl s =
     (if i < end_excl \<and> i < length lines
      then (case exec_line (execute n lines) n lines i s of
              Some (Next j s') \<Rightarrow> execute n lines j end_excl s'
            | r \<Rightarrow> r)
      else Some (Next i s))"

section \<open>The first pass and the whole run\<close>

text \<open>
  \<^verbatim>\<open>collect_funcs\<close>: every line with at least three tokens whose first token is
  \<^verbatim>\<open>define\<close> is registered, and the scan goes on after the end of its block.
  \<open>None\<close> when the table overflows.
\<close>

function collect_funcs_loop :: "string list \<Rightarrow> nat \<Rightarrow> FuncDef list \<Rightarrow> FuncDef list option" where
  "collect_funcs_loop lines i fs =
     (if i < length lines
      then let tok = tokenize (line_text lines i) 32
           in if length tok \<ge> 3 \<and> tok ! 0 = ''define''
              then if length fs < MAX_FUNCS
                   then collect_funcs_loop lines (find_end lines i ''end define'' + 1)
                          (fs @ [make_func tok i (find_end lines i ''end define'')])
                   else None
              else collect_funcs_loop lines (i + 1) fs
      else Some fs)"
  by pat_completeness auto
termination
proof (relation "measure (\<lambda>(lines, i, fs). length lines - i)")
  show "wf (measure (\<lambda>(lines, i, fs). length lines - i))"
    by simp
next
  fix lines :: "string list" and i :: nat and fs :: "FuncDef list" and tok :: "string list"
  assume less: "i < length lines"
  have ge: "j \<le> length lines \<Longrightarrow> j \<le> find_end_loop lines kw j d" for j kw d
  proof (induction lines kw j d rule: find_end_loop.induct)
    case (1 lines kw j d)
    show ?case
    proof (cases "j < length lines")
      case True
      from True "1.IH" show ?thesis
        by (subst find_end_loop.simps) (auto simp: Let_def intro: Suc_leD)
    next
      case False
      with "1.prems" show ?thesis
        by (subst find_end_loop.simps) simp
    qed
  qed
  from less have "i + 1 \<le> find_end lines i ''end define''"
    unfolding find_end_def by (intro ge) simp
  with less
  show "((lines, find_end lines i ''end define'' + 1,
          fs @ [make_func tok i (find_end lines i ''end define'')]), (lines, i, fs))
        \<in> measure (\<lambda>(lines, i, fs). length lines - i)"
    by simp
next
  fix lines :: "string list" and i :: nat and fs :: "FuncDef list"
  assume "i < length lines"
  then show "((lines, i + 1, fs), (lines, i, fs)) \<in> measure (\<lambda>(lines, i, fs). length lines - i)"
    by simp
qed

declare collect_funcs_loop.simps [simp del]

definition collect_funcs :: "string list \<Rightarrow> FuncDef list option" where
  "collect_funcs lines = collect_funcs_loop lines 0 []"

text \<open>
  \<^verbatim>\<open>main\<close> on a loaded script: the tables are cleared, the functions collected, the
  lines executed from the first to the last, and the process ends with status 0.
\<close>

definition run_program :: "nat \<Rightarrow> string list \<Rightarrow> string \<Rightarrow> outcome option" where
  "run_program fuel lines stdin =
     (case collect_funcs lines of
        None \<Rightarrow> Some Undef
      | Some fs \<Rightarrow>
          (case execute fuel lines 0 (length lines) ((init_state stdin)\<lparr>funcs := fs\<rparr>) of
             Some (Next j s) \<Rightarrow> Some (Exit 0 s)
           | r \<Rightarrow> r))"

section \<open>Reference definitions and concrete inputs\<close>

text \<open>
  The block resolver in the words of the specification: the depth after line \<open>i\<close> is 1
  plus the number of lines after \<open>from\<close> up to \<open>i\<close> that begin with one of the four
  opening keywords, minus the number of those that begin with \<^verbatim>\<open>end \<close>; the result
  is the first index after \<open>from\<close> with depth 0, or the number of lines. A line is
  looked at without the white space around it.
\<close>

definition spec_opens :: "string \<Rightarrow> bool" where
  "spec_opens l = list_ex (startswith l) [''if '', ''while '', ''repeat '', ''define '']"

definition spec_delta :: "string \<Rightarrow> int" where
  "spec_delta l = (if spec_opens l then 1 else 0) - (if startswith l ''end '' then 1 else 0)"

definition depth_after :: "string list \<Rightarrow> nat \<Rightarrow> nat \<Rightarrow> int" where
  "depth_after lines from i = 1 + sum_list (map (\<lambda>j. spec_delta (trim (lines ! j))) [from + 1 ..< i + 1])"

definition find_end_spec :: "string list \<Rightarrow> nat \<Rightarrow> nat" where
  "find_end_spec lines from =
     (case find (\<lambda>i. depth_after lines from i = 0) [from + 1 ..< length lines] of
        Some i \<Rightarrow> i
      | None \<Rightarrow> length lines)"



text \<open>
A token between double quotes.
\<close>

definition quoted :: "string \<Rightarrow> string" where
  "quoted t = dquote # t @ [dquote]"





definition if_one_line :: "string list" where
  "if_one_line = [''if 5 is greater than 3 then print '' @ quoted ''yes'' @ '' otherwise print ''
                    @ quoted ''no'' @ '' end if'']"

definition if_program :: "string list" where
  "if_program = [''if 5 is greater than 3 then'', ''print '' @ quoted ''yes'', ''otherwise'',
                   ''print '' @ quoted ''no'', ''end if'']"

definition nested_for_program :: "string list" where
  "nested_for_program = [''if a is zero then'', ''  for i from 1 to 2 then'', ''    print i'',
     ''  end for'', ''  print a'', ''end if'']"



definition say_program :: "string list" where
  "say_program = [''print hi and you'', ''say hi and you'']"




section \<open>Auxiliary facts\<close>

subsection \<open>Searching a list\<close>

lemma index_from_Some:
  "index_from i x ys = Some k \<Longrightarrow> i \<le> k \<and> k - i < length ys \<and> ys ! (k - i) = x"
proof (induction ys arbitrary: i)
  case Nil
  then show ?case by simp
next
  case (Cons y ys)
  show ?case
  proof (cases "y = x")
    case True
    with Cons.prems show ?thesis by simp
  next
    case False
    with Cons.prems have "index_from (Suc i) x ys = Some k" by simp
    from Cons.IH [OF this] have "Suc i \<le> k" "k - Suc i < length ys" "ys ! (k - Suc i) = x"
      by auto
    moreover from this have "k - i = Suc (k - Suc i)" by arith
    ultimately show ?thesis by simp
  qed
qed

lemma index_from_None: "index_from i x ys = None \<longleftrightarrow> x \<notin> set ys"
  by (induction ys arbitrary: i) auto


lemma index_from_first:
  "index_from i x ys = Some k \<Longrightarrow> j < k - i \<Longrightarrow> ys ! j \<noteq> x"
proof (induction ys arbitrary: i j)
  case Nil
  then show ?case by simp
next
  case (Cons y ys)
  show ?case
  proof (cases "y = x")
    case True
    with Cons.prems show ?thesis by simp
  next
    case False
    with Cons.prems have *: "index_from (Suc i) x ys = Some k" by simp
    show ?thesis
    proof (cases j)
      case 0
      with False show ?thesis by simp
    next
      case (Suc j')
      with Cons.prems(2) have "j' < k - Suc i" by simp
      from Cons.IH [OF * this] Suc show ?thesis by simp
    qed
  qed
qed


lemma find_cong_list: "(\<And>x. x \<in> set xs \<Longrightarrow> P x = Q x) \<Longrightarrow> find P xs = find Q xs"
  by (induction xs) auto

subsection \<open>Lines and tokens\<close>

lemma startswith_trans: "startswith kw p \<Longrightarrow> startswith l kw \<Longrightarrow> startswith l p"
proof (induction l kw arbitrary: p rule: startswith.induct)
  case (1 s)
  then show ?case by (cases p) auto
next
  case (2 p ps)
  then show ?case by simp
next
  case (3 c cs q qs)
  then show ?case by (cases p) auto
qed





subsection \<open>Variables\<close>


lemma find_var_name: "find_var n s = Some k \<Longrightarrow> fst (vars s ! k) = n"
  unfolding find_var_def by (drule index_from_Some) auto






lemma map_fst_update: "map fst (xs[i := (fst (xs ! i), y)]) = map fst xs"
proof (cases "i < length xs")
  case True
  have "map fst (xs[i := (fst (xs ! i), y)]) = (map fst xs)[i := map fst xs ! i]"
    using True by (simp add: map_update)
  then show ?thesis by simp
next
  case False
  then show ?thesis by (simp add: list_update_beyond)
qed

lemma find_var_upd_var [simp]: "find_var n (upd_var i f s) = find_var n s"
  by (simp add: find_var_def upd_var_def map_fst_update)




subsection \<open>Evaluation\<close>

text \<open>
Rule sets for the evaluation of concrete lines by the simplifier.
\<close>

lemmas text_simps = line_text_def MAX_LINE_def MAX_NAME_def trim_def isspace_def dquote_def
  tokenize.simps quoted_token_def

lemmas number_simps = strtod_def is_hex_prefix_def eat_decimal_def eat_number_def eat_exponent_def
  isdigit_def digit_val_def



subsection \<open>Digits\<close>



lemma digit_char_cases:
  assumes "d < 10"
  shows "isdigit (digit_char d) \<and> digit_val (digit_char d) = d
         \<and> (digit_char d = CHR ''0'' \<longleftrightarrow> d = 0)"
proof -
  from assms have "d = 0 \<or> d = 1 \<or> d = 2 \<or> d = 3 \<or> d = 4 \<or> d = 5 \<or> d = 6 \<or> d = 7 \<or> d = 8 \<or> d = 9"
    by arith
  then show ?thesis
    by (elim disjE) (simp_all add: digit_char_def isdigit_def digit_val_def)
qed





lemma digits6_hd: "100000 \<le> m \<Longrightarrow> m < 1000000 \<Longrightarrow> hd (digits6 m) \<noteq> CHR ''0''"
proof -
  assume "100000 \<le> m" "m < 1000000"
  then have "m div 100000 \<noteq> 0" "m div 100000 < 10" by (simp_all add: div_greater_zero_iff less_mult_imp_div_less)
  then have "m div 100000 mod 10 \<noteq> 0" by simp
  then show ?thesis by (simp add: digits6_def digit_char_cases)
qed









subsection \<open>Reading what \<^verbatim>\<open>%g\<close> has written\<close>












subsection \<open>Running a script\<close>

text \<open>
One step of \<^verbatim>\<open>execute\<close>, with the fuel as a number.
\<close>

lemma execute_unfold:
  "execute n lines i e s =
     (if n = 0 then None
      else if i < e \<and> i < length lines
      then (case exec_line (execute (n - 1) lines) (n - 1) lines i s of
              Some (Next j s') \<Rightarrow> execute (n - 1) lines j e s'
            | r \<Rightarrow> r)
      else Some (Next i s))"
  by (cases n) (auto split: option.splits outcome.splits)

text \<open>
A script without a \<^verbatim>\<open>define\<close> line registers no function.
\<close>

lemma collect_funcs_loop_no_define:
  assumes "\<forall>l \<in> set lines. take 1 (tokenize (trim (take (MAX_LINE - 1) l)) 32) \<noteq> [''define'']"
  shows "collect_funcs_loop lines i fs = Some fs"
proof (induction "length lines - i" arbitrary: i)
  case 0
  then show ?case by (subst collect_funcs_loop.simps) simp
next
  case (Suc k)
  then have i: "i < length lines" and k: "k = length lines - (i + 1)" by auto
  from i assms have "take 1 (tokenize (line_text lines i) 32) \<noteq> [''define'']"
    by (simp add: line_text_def)
  then have "\<not> (3 \<le> length (tokenize (line_text lines i) 32)
                \<and> tokenize (line_text lines i) 32 ! 0 = ''define'')"
    by (cases "tokenize (line_text lines i) 32") auto
  with i Suc.hyps(1) [OF k] show ?case
    by (subst collect_funcs_loop.simps) (auto simp: Let_def)
qed

subsection \<open>Fuel\<close>

text \<open>
  A run that has returned within its fuel returns the same with more fuel: the result
  of a script does not depend on the fuel that the model was given, once it is enough.
  First the two shapes that the executor is made of, a call followed by the rest, and
  a test.
\<close>

lemma seq_mono:
  assumes r: "(case b of Some (Next j s') \<Rightarrow> f j s' | q \<Rightarrow> q) = Some r"
    and b: "\<And>q. b = Some q \<Longrightarrow> b' = Some q"
    and f: "\<And>j s'. f j s' = Some r \<Longrightarrow> f' j s' = Some r"
  shows "(case b' of Some (Next j s') \<Rightarrow> f' j s' | q \<Rightarrow> q) = Some r"
proof -
  from r obtain q where q: "b = Some q"
    by (cases b) auto
  from b [OF q] have q': "b' = Some q" .
  from r f show ?thesis
    unfolding q q' by (cases q) auto
qed

lemma if_mono:
  assumes "(if c then a else b) = Some r"
    and "a = Some r \<Longrightarrow> a' = Some r"
    and "b = Some r \<Longrightarrow> b' = Some r"
  shows "(if c then a' else b') = Some r"
  using assms by (cases c) auto

text \<open>
  The loops, when the body returns the same with more fuel.
\<close>

lemma while_loop_mono:
  assumes body: "\<And>s r. body s = Some r \<Longrightarrow> body' s = Some r"
  shows "while_loop k c body nxt s = Some r \<Longrightarrow> k \<le> k' \<Longrightarrow> while_loop k' c body' nxt s = Some r"
proof (induction k arbitrary: k' s)
  case 0
  then show ?case by simp
next
  case (Suc k)
  from Suc.prems(2) obtain k0 where k': "k' = Suc k0" "k \<le> k0"
    by (cases k') auto
  show ?case
  proof (cases "c s = Some True")
    case False
    with Suc.prems(1) show ?thesis
      unfolding k' by (auto split: option.splits bool.splits)
  next
    case True
    with Suc.prems(1)
    have "(case body s of Some (Next j s') \<Rightarrow> while_loop k c body nxt s' | q \<Rightarrow> q) = Some r"
      by simp
    then have "(case body' s of Some (Next j s') \<Rightarrow> while_loop k0 c body' nxt s' | q \<Rightarrow> q) = Some r"
      by (rule seq_mono) (auto intro: body Suc.IH k'(2))
    with True show ?thesis
      unfolding k' by simp
  qed
qed

lemma repeat_loop_mono:
  assumes body: "\<And>s r. body s = Some r \<Longrightarrow> body' s = Some r"
  shows "repeat_loop k body nxt s = Some r \<Longrightarrow> repeat_loop k body' nxt s = Some r"
proof (induction k arbitrary: s)
  case 0
  then show ?case by simp
next
  case (Suc k)
  from Suc.prems
  have "(case body s of Some (Next j s') \<Rightarrow> repeat_loop k body nxt s' | q \<Rightarrow> q) = Some r"
    by simp
  then have "(case body' s of Some (Next j s') \<Rightarrow> repeat_loop k body' nxt s' | q \<Rightarrow> q) = Some r"
    by (rule seq_mono) (auto intro: body Suc.IH)
  then show ?case
    by simp
qed

lemma for_loop_mono:
  assumes body: "\<And>s r. body s = Some r \<Longrightarrow> body' s = Some r"
  shows "for_loop k up d to step v body nxt s = Some r \<Longrightarrow> k \<le> k'
         \<Longrightarrow> for_loop k' up d to step v body' nxt s = Some r"
proof (induction k arbitrary: k' d s)
  case 0
  then show ?case by simp
next
  case (Suc k)
  from Suc.prems(2) obtain k0 where k': "k' = Suc k0" "k \<le> k0"
    by (cases k') auto
  show ?case
  proof (cases "if up then d \<le> to else d \<ge> to")
    case False
    with Suc.prems(1) show ?thesis
      unfolding k' by simp
  next
    case True
    let ?s = "upd_var v (\<lambda>x. x\<lparr>num := d\<rparr>) s"
    from True Suc.prems(1)
    have "(case body ?s of Some (Next j s') \<Rightarrow> for_loop k up (d + step) to step v body nxt s'
           | q \<Rightarrow> q) = Some r"
      by (auto split: if_splits)
    then have "(case body' ?s of Some (Next j s') \<Rightarrow> for_loop k0 up (d + step) to step v body' nxt s'
           | q \<Rightarrow> q) = Some r"
      by (rule seq_mono) (auto intro: body Suc.IH k'(2))
    with True show ?thesis
      unfolding k' by (auto split: if_splits)
  qed
qed

text \<open>
  The statements that call \<^verbatim>\<open>execute\<close>.
\<close>

lemma exec_if_mono:
  assumes ex: "\<And>a b s r. ex a b s = Some r \<Longrightarrow> ex' a b s = Some r"
    and r: "exec_if ex lines tok idx s = Some r"
  shows "exec_if ex' lines tok idx s = Some r"
proof (cases "index_from 1 ''then'' (tl tok)")
  case None
  with r show ?thesis
    unfolding exec_if_def by simp
next
  case (Some then_idx)
  define end_if where "end_if = find_end lines idx ''end if''"
  define otherwise where "otherwise = find_otherwise lines end_if (idx + 1) 1"
  note defs = exec_if_def Let_def end_if_def [symmetric] otherwise_def [symmetric]
  show ?thesis
  proof (cases "eval_condition s (cond_text tok then_idx)")
    case None
    with r Some show ?thesis
      unfolding defs by simp
  next
    case c: (Some cond_true)
    show ?thesis
    proof (cases cond_true)
      case True
      let ?e = "case otherwise of Some ow \<Rightarrow> ow | None \<Rightarrow> end_if"
      from r Some c True
      have "(case ex (idx + 1) ?e s of Some (Next j s') \<Rightarrow> Some (Next (end_if + 1) s')
             | q \<Rightarrow> q) = Some r"
        unfolding defs by simp
      then have "(case ex' (idx + 1) ?e s of Some (Next j s') \<Rightarrow> Some (Next (end_if + 1) s')
             | q \<Rightarrow> q) = Some r"
        by (rule seq_mono) (auto intro: ex)
      with Some c True show ?thesis
        unfolding defs by simp
    next
      case False
      show ?thesis
      proof (cases otherwise)
        case None
        with r Some c False show ?thesis
          unfolding defs by simp
      next
        case ow: (Some ow)
        from r Some c False ow
        have "(case ex (ow + 1) end_if s of Some (Next j s') \<Rightarrow> Some (Next (end_if + 1) s')
               | q \<Rightarrow> q) = Some r"
          unfolding defs by simp
        then have "(case ex' (ow + 1) end_if s of Some (Next j s') \<Rightarrow> Some (Next (end_if + 1) s')
               | q \<Rightarrow> q) = Some r"
          by (rule seq_mono) (auto intro: ex)
        with Some c False ow show ?thesis
          unfolding defs by simp
      qed
    qed
  qed
qed

lemma exec_while_mono:
  assumes ex: "\<And>a b s r. ex a b s = Some r \<Longrightarrow> ex' a b s = Some r"
    and n: "n \<le> n'"
    and r: "exec_while ex n lines tok idx s = Some r"
  shows "exec_while ex' n' lines tok idx s = Some r"
  using r unfolding exec_while_def Let_def
  by (auto split: option.splits intro: while_loop_mono [OF ex _ n])

lemma exec_repeat_mono:
  assumes ex: "\<And>a b s r. ex a b s = Some r \<Longrightarrow> ex' a b s = Some r"
    and r: "exec_repeat ex lines tok idx s = Some r"
  shows "exec_repeat ex' lines tok idx s = Some r"
  using r unfolding exec_repeat_def Let_def
  by (auto split: option.splits intro: repeat_loop_mono [OF ex])

lemma exec_for_mono:
  assumes ex: "\<And>a b s r. ex a b s = Some r \<Longrightarrow> ex' a b s = Some r"
    and n: "n \<le> n'"
    and r: "exec_for ex n lines tok idx s = Some r"
  shows "exec_for ex' n' lines tok idx s = Some r"
  using r unfolding exec_for_def Let_def
  by (auto split: option.splits intro: for_loop_mono [OF ex _ n])

lemma exec_call_mono:
  assumes ex: "\<And>a b s r. ex a b s = Some r \<Longrightarrow> ex' a b s = Some r"
    and r: "exec_call ex tok idx s = Some r"
  shows "exec_call ex' tok idx s = Some r"
proof (cases "find_func (tok ! 1) s")
  case None
  with r show ?thesis
    unfolding exec_call_def by simp
next
  case (Some f)
  define args where "args = drop (if length tok > 2 \<and> tok ! 2 = ''with'' then 3 else 2) tok"
  show ?thesis
  proof (cases "bind_params (params f) args s")
    case (Inl sf)
    with r Some show ?thesis
      unfolding exec_call_def Let_def args_def by simp
  next
    case (Inr s1)
    with r Some
    have "(case ex (start_line f) (end_line f) s1 of
             Some (Next j s') \<Rightarrow> Some (Next (idx + 1) s') | q \<Rightarrow> q) = Some r"
      unfolding exec_call_def Let_def args_def by simp
    then have "(case ex' (start_line f) (end_line f) s1 of
             Some (Next j s') \<Rightarrow> Some (Next (idx + 1) s') | q \<Rightarrow> q) = Some r"
      by (rule seq_mono) (auto intro: ex)
    with Some Inr show ?thesis
      unfolding exec_call_def Let_def args_def by simp
  qed
qed

text \<open>
  One line, and then the executor and the whole run.
\<close>

lemma exec_line_mono:
  assumes ex: "\<And>a b s r. ex a b s = Some r \<Longrightarrow> ex' a b s = Some r"
    and n: "n \<le> n'"
    and r: "exec_line ex n lines idx s = Some r"
  shows "exec_line ex' n' lines idx s = Some r"
proof -
  have i: "exec_if ex lines tok idx s = Some r \<Longrightarrow> exec_if ex' lines tok idx s = Some r" for tok
    using ex by (rule exec_if_mono)
  have w: "exec_while ex n lines tok idx s = Some r \<Longrightarrow> exec_while ex' n' lines tok idx s = Some r"
    for tok
    using ex n by (rule exec_while_mono)
  have p: "exec_repeat ex lines tok idx s = Some r \<Longrightarrow> exec_repeat ex' lines tok idx s = Some r"
    for tok
    using ex by (rule exec_repeat_mono)
  have f: "exec_for ex n lines tok idx s = Some r \<Longrightarrow> exec_for ex' n' lines tok idx s = Some r"
    for tok
    using ex n by (rule exec_for_mono)
  have c: "exec_call ex tok idx s = Some r \<Longrightarrow> exec_call ex' tok idx s = Some r" for tok
    using ex by (rule exec_call_mono)
  from r show ?thesis
    unfolding exec_line_def Let_def
    by (elim if_mono) (assumption | erule i w p f c)+
qed

lemma execute_mono:
  "execute n lines i e s = Some r \<Longrightarrow> n \<le> m \<Longrightarrow> execute m lines i e s = Some r"
proof (induction n arbitrary: m i e s r)
  case 0
  then show ?case by simp
next
  case (Suc n)
  from Suc.prems(2) obtain m0 where m: "m = Suc m0" "n \<le> m0"
    by (cases m) auto
  show ?case
  proof (cases "i < e \<and> i < length lines")
    case False
    with Suc.prems(1) show ?thesis
      unfolding m by auto
  next
    case True
    with Suc.prems(1)
    have "(case exec_line (execute n lines) n lines i s of
             Some (Next j s') \<Rightarrow> execute n lines j e s' | q \<Rightarrow> q) = Some r"
      by simp
    then have "(case exec_line (execute m0 lines) m0 lines i s of
             Some (Next j s') \<Rightarrow> execute m0 lines j e s' | q \<Rightarrow> q) = Some r"
    proof (rule seq_mono)
      fix q
      assume "exec_line (execute n lines) n lines i s = Some q"
      with m(2) show "exec_line (execute m0 lines) m0 lines i s = Some q"
        by (rule exec_line_mono [rotated 1]) (rule Suc.IH [OF _ m(2)])
    next
      fix j s'
      assume "execute n lines j e s' = Some r"
      then show "execute m0 lines j e s' = Some r"
        by (rule Suc.IH [OF _ m(2)])
    qed
    with True show ?thesis
      unfolding m by simp
  qed
qed

lemma run_program_mono:
  "run_program n lines txt = Some r \<Longrightarrow> n \<le> m \<Longrightarrow> run_program m lines txt = Some r"
  unfolding run_program_def
  by (auto split: option.splits outcome.splits dest: execute_mono)

section \<open>Properties\<close>

subsection \<open>Appending to a full array\<close>










subsection \<open>A \<^verbatim>\<open>define\<close> line at run time\<close>









subsection \<open>The conditional\<close>

lemma greater_words:
  "cond_words ''5 is greater than 3'' = [''5'', ''is'', ''greater'', ''than'', ''3'']"
  by (simp add: cond_words_def MAX_LINE_def trim_def isspace_def strtok_words.simps isdelim_def)

lemma greater_true: "eval_condition s ''5 is greater than 3'' = Some True"
  by (simp add: eval_condition_def greater_words detect_op_def apply_op_def Let_def MAX_NAME_def
      resolve_num_def resolve_def number_simps isspace_def dquote_def)

lemma one_line_tokens:
  "tokenize (line_text if_one_line 0) 32
     = [''if'', ''5'', ''is'', ''greater'', ''than'', ''3'', ''then'', ''print'', quoted ''yes'',
        ''otherwise'', ''print'', quoted ''no'', ''end'', ''if'']"
  by (simp add: if_one_line_def quoted_def text_simps)

lemma one_line_text:
  "line_text if_one_line 0 \<noteq> [] \<and> \<not> startswith (line_text if_one_line 0) ''#''
     \<and> \<not> startswith (line_text if_one_line 0) ''//''"
  by (simp add: if_one_line_def quoted_def dquote_def line_text_def MAX_LINE_def trim_def isspace_def)

lemma one_line_collect: "collect_funcs if_one_line = Some []"
  unfolding collect_funcs_def
  by (rule collect_funcs_loop_no_define) (simp add: if_one_line_def quoted_def text_simps)

text \<open>
  C3, as stated, fails. As a script of one line, the conditional has no line between
  its \<^verbatim>\<open>if\<close> and the end of the script: the condition is true, the executed block
  is empty, and the run ends with status 0 and no output.
\<close>

theorem if_one_line_prints_nothing:
  "run_program 2 if_one_line [] = Some (Exit 0 (init_state []))"
proof -
  have e: "find_end if_one_line 0 ''end if'' = 1"
    by (simp add: find_end_def find_end_loop.simps if_one_line_def)
  have o: "find_otherwise if_one_line 1 1 1 = None"
    by (simp add: find_otherwise.simps)
  have "exec_line ex n if_one_line 0 s = (case ex 1 1 s of Some (Next j s') \<Rightarrow> Some (Next (1 + 1) s') | r \<Rightarrow> r)"
    for ex n s
    by (simp add: exec_line_def one_line_tokens one_line_text Let_def exec_if_def cond_text_def
        greater_true e o del: One_nat_def)
  then show ?thesis
    by (simp add: run_program_def one_line_collect execute_unfold
        if_one_line_def [THEN arg_cong, of length] init_state_def del: One_nat_def)
qed

lemma if_tokens:
  "tokenize (line_text if_program 0) 32 = [''if'', ''5'', ''is'', ''greater'', ''than'', ''3'', ''then'']"
  "tokenize (line_text if_program (Suc 0)) 32 = [''print'', quoted ''yes'']"
  by (simp_all add: if_program_def quoted_def text_simps)

lemma if_text:
  "line_text if_program 0 \<noteq> [] \<and> \<not> startswith (line_text if_program 0) ''#''
     \<and> \<not> startswith (line_text if_program 0) ''//''"
  "line_text if_program (Suc 0) \<noteq> [] \<and> \<not> startswith (line_text if_program (Suc 0)) ''#''
     \<and> \<not> startswith (line_text if_program (Suc 0)) ''//''"
  by (simp_all add: if_program_def quoted_def dquote_def line_text_def MAX_LINE_def trim_def isspace_def)

lemma if_collect: "collect_funcs if_program = Some []"
  unfolding collect_funcs_def
  by (rule collect_funcs_loop_no_define) (simp add: if_program_def quoted_def text_simps)

lemma if_blocks:
  "find_end if_program 0 ''end if'' = 4"
  "find_otherwise if_program 4 1 1 = Some 2"
  by (simp_all add: find_end_def find_end_loop.simps find_otherwise.simps if_program_def quoted_def
      dquote_def trim_def isspace_def opens_block_def Let_def)

lemma yes_text:
  "resolve_str s (quoted ''yes'') = Some ''yes''" "quoted ''yes'' \<noteq> ''and''"
  by (simp_all add: resolve_str_def resolve_def quoted_def dquote_def)

lemma if_program_run:
  "run_program 4 if_program [] = Some (Exit 0 ((init_state [])\<lparr>out := ''yes'' @ [newline]\<rparr>))"
proof -
  have a: "exec_line ex n if_program 0 s
       = (case ex 1 2 s of Some (Next j s') \<Rightarrow> Some (Next (4 + 1) s') | r \<Rightarrow> r)" for ex n s
    by (simp add: exec_line_def if_tokens if_text Let_def exec_if_def cond_text_def
        greater_true if_blocks del: One_nat_def)
  have b: "exec_line ex n if_program 1 s = Some (Next 2 (s\<lparr>out := out s @ ''yes'' @ [newline]\<rparr>))"
    for ex n s
    by (simp add: exec_line_def if_tokens if_text Let_def exec_print_def yes_text)
  show ?thesis
    by (simp add: run_program_def if_collect execute_unfold a b
        if_program_def [THEN arg_cong, of length] init_state_def del: One_nat_def)
qed

text \<open>
  C3, amended. With each statement on a line of its own (\<^verbatim>\<open>if 5 is greater than 3
  then\<close>, \<^verbatim>\<open>print "yes"\<close>, \<^verbatim>\<open>otherwise\<close>, \<^verbatim>\<open>print "no"\<close>, \<^verbatim>\<open>end if\<close>) the
  script writes \<^verbatim>\<open>yes\<close> and a newline, and nothing else, and ends with status 0:
  the run returns with four units of fuel, and with any larger fuel it returns the same.
\<close>

theorem if_program_prints_yes:
  "4 \<le> fuel \<Longrightarrow>
   run_program fuel if_program [] = Some (Exit 0 ((init_state [])\<lparr>out := ''yes'' @ [newline]\<rparr>))"
  by (rule run_program_mono [OF if_program_run])

text \<open>The same run with nine units of fuel.\<close>

theorem if_program_prints_yes_witness:
  "(4::nat) \<le> 9
   \<and> run_program 9 if_program [] = Some (Exit 0 ((init_state [])\<lparr>out := ''yes'' @ [newline]\<rparr>))"
  using if_program_prints_yes [of 9] by simp

subsection \<open>The block resolver\<close>

lemma spec_opens_eq: "spec_opens l = opens_block l"
  by (simp add: spec_opens_def opens_block_def)

lemma find_end_loop_scan:
  assumes kw: "startswith kw ''end ''"
  shows "find_end_loop lines kw i d =
           (case find (\<lambda>j. d + sum_list (map (\<lambda>k. spec_delta (trim (lines ! k))) [i ..< j + 1]) = 0)
                   [i ..< length lines] of
              Some j \<Rightarrow> j
            | None \<Rightarrow> length lines)"
  using kw
proof (induction lines kw i d rule: find_end_loop.induct)
  case (1 lines end_keyword i depth)
  show ?case
  proof (cases "i < length lines")
    case False
    then show ?thesis by (subst find_end_loop.simps) simp
  next
    case True
    let ?l = "trim (lines ! i)"
    let ?d1 = "if opens_block ?l then depth + 1 else depth"
    let ?d2 = "if startswith ?l end_keyword \<or> startswith ?l ''end '' then ?d1 - 1 else ?d1"
    have ends: "(startswith ?l end_keyword \<or> startswith ?l ''end '') = startswith ?l ''end ''"
      using startswith_trans [OF "1.prems"] by auto
    have d2: "?d2 = depth + spec_delta ?l"
      by (simp add: ends spec_delta_def spec_opens_eq)
    have upt: "[i ..< length lines] = i # [i + 1 ..< length lines]"
      using True by (simp add: upt_conv_Cons)
    have here: "depth + sum_list (map (\<lambda>k. spec_delta (trim (lines ! k))) [i ..< i + 1]) = ?d2"
      by (simp add: d2)
    show ?thesis
    proof (cases "?d2 = 0")
      case zero: True
      then have "find_end_loop lines end_keyword i depth = i"
        using True by (subst find_end_loop.simps) (simp add: Let_def)
      moreover have "find (\<lambda>j. depth + sum_list (map (\<lambda>k. spec_delta (trim (lines ! k))) [i ..< j + 1]) = 0)
                   [i ..< length lines] = Some i"
        using here zero by (simp add: upt)
      ultimately show ?thesis by simp
    next
      case nz: False
      have step: "find_end_loop lines end_keyword i depth = find_end_loop lines end_keyword (i + 1) ?d2"
        using True nz by (subst find_end_loop.simps) (simp add: Let_def)
      have ih: "find_end_loop lines end_keyword (i + 1) ?d2 =
           (case find (\<lambda>j. ?d2 + sum_list (map (\<lambda>k. spec_delta (trim (lines ! k))) [i + 1 ..< j + 1]) = 0)
                   [i + 1 ..< length lines] of
              Some j \<Rightarrow> j
            | None \<Rightarrow> length lines)"
        using "1.IH" [OF True refl refl refl nz "1.prems"] .
      have same: "find (\<lambda>j. depth + sum_list (map (\<lambda>k. spec_delta (trim (lines ! k))) [i ..< j + 1]) = 0)
                    [i + 1 ..< length lines]
                = find (\<lambda>j. ?d2 + sum_list (map (\<lambda>k. spec_delta (trim (lines ! k))) [i + 1 ..< j + 1]) = 0)
                    [i + 1 ..< length lines]"
      proof (rule find_cong_list)
        fix j assume "j \<in> set [i + 1 ..< length lines]"
        then have "i < j + 1" by simp
        then have e: "[i ..< j + 1] = i # [Suc i ..< j + 1]" by (rule upt_conv_Cons)
        have "sum_list (map (\<lambda>k. spec_delta (trim (lines ! k))) [i ..< j + 1])
              = spec_delta ?l + sum_list (map (\<lambda>k. spec_delta (trim (lines ! k))) [i + 1 ..< j + 1])"
          by (subst e) simp
        then show "(depth + sum_list (map (\<lambda>k. spec_delta (trim (lines ! k))) [i ..< j + 1]) = 0)
                 = (?d2 + sum_list (map (\<lambda>k. spec_delta (trim (lines ! k))) [i + 1 ..< j + 1]) = 0)"
          by (simp only: d2 add.assoc)
      qed
      have "find (\<lambda>j. depth + sum_list (map (\<lambda>k. spec_delta (trim (lines ! k))) [i ..< j + 1]) = 0)
                   [i ..< length lines]
            = find (\<lambda>j. depth + sum_list (map (\<lambda>k. spec_delta (trim (lines ! k))) [i ..< j + 1]) = 0)
                   [i + 1 ..< length lines]"
        using here nz by (simp add: upt)
      with step ih same show ?thesis by simp
    qed
  qed
qed

text \<open>
  C4. For each of the end keywords that \<^verbatim>\<open>exec_line\<close> and \<^verbatim>\<open>collect_funcs\<close>
  pass (they all begin with \<^verbatim>\<open>end \<close>), \<^verbatim>\<open>find_end\<close> is the depth scan of the
  specification: from any opening index, the first later index at which the depth,
  started at 1, raised by the lines that begin with \<^verbatim>\<open>if \<close>, \<^verbatim>\<open>while \<close>,
  \<^verbatim>\<open>repeat \<close> or \<^verbatim>\<open>define \<close> and lowered by the lines that begin with
  \<^verbatim>\<open>end \<close>, reaches 0, and the number of lines if there is none. A line that begins
  with \<^verbatim>\<open>for \<close> leaves the depth as it is.
\<close>

theorem find_end_is_depth_scan:
  assumes "startswith kw ''end ''"
  shows "find_end lines from kw = find_end_spec lines from
         \<and> (startswith l ''for '' \<longrightarrow> spec_delta l = 0)"
proof
  show "find_end lines from kw = find_end_spec lines from"
    unfolding find_end_def find_end_spec_def depth_after_def
    by (simp add: find_end_loop_scan [OF assms])
next
  show "startswith l ''for '' \<longrightarrow> spec_delta l = 0"
  proof
    assume "startswith l ''for ''"
    then obtain r where "l = ''for '' @ r"
      by (cases l; cases "tl l"; cases "tl (tl l)"; cases "tl (tl (tl l))") auto
    then show "spec_delta l = 0"
      by (simp add: spec_delta_def spec_opens_def)
  qed
qed

text \<open>
  An \<^verbatim>\<open>if\<close> block that holds a \<^verbatim>\<open>for\<close> loop: the \<^verbatim>\<open>for\<close> line does not
  raise the depth, so the block found for the \<^verbatim>\<open>if\<close> ends at the \<^verbatim>\<open>end for\<close>
  of line 3.
\<close>

theorem find_end_is_depth_scan_witness:
  "startswith ''end if'' ''end ''
   \<and> find_end nested_for_program 0 ''end if'' = 3
   \<and> find_end_spec nested_for_program 0 = 3
   \<and> startswith ''for i from 1 to 2 then'' ''for ''
   \<and> spec_delta ''for i from 1 to 2 then'' = 0"
proof -
  have k: "startswith ''end if'' ''end ''"
    by simp
  have f: "startswith ''for i from 1 to 2 then'' ''for ''"
    by simp
  have e: "find_end nested_for_program 0 ''end if'' = 3"
    by (simp add: find_end_def find_end_loop.simps nested_for_program_def trim_def isspace_def
        opens_block_def Let_def)
  from find_end_is_depth_scan [OF k, of nested_for_program 0 "''for i from 1 to 2 then''"] e f
  show ?thesis
    by simp
qed

subsection \<open>Division by zero\<close>



subsection \<open>The stack is last in, first out\<close>









subsection \<open>\<^verbatim>\<open>print\<close> and \<^verbatim>\<open>say\<close>\<close>

lemma say_tokens:
  "tokenize (line_text say_program 0) 32 = [''print'', ''hi'', ''and'', ''you'']"
  "tokenize (line_text say_program (Suc 0)) 32 = [''say'', ''hi'', ''and'', ''you'']"
  by (simp_all add: say_program_def text_simps)

lemma say_lines:
  "line_text say_program 0 \<noteq> [] \<and> \<not> startswith (line_text say_program 0) ''#''
     \<and> \<not> startswith (line_text say_program 0) ''//''"
  "line_text say_program (Suc 0) \<noteq> [] \<and> \<not> startswith (line_text say_program (Suc 0)) ''#''
     \<and> \<not> startswith (line_text say_program (Suc 0)) ''//''"
  by (simp_all add: say_program_def line_text_def MAX_LINE_def trim_def isspace_def)

lemma say_words:
  "resolve_str (init_state []) ''hi'' = Some ''hi''" "resolve_str (init_state []) ''you'' = Some ''you''"
  by (simp_all add: resolve_str_def resolve_def number_simps isspace_def dquote_def find_var_def
      init_state_def)

lemma say_steps:
  "exec_line ex n say_program 0 s = Some (exec_print [''print'', ''hi'', ''and'', ''you''] 0 s)"
  "exec_line ex n say_program 1 s = Some (exec_say [''say'', ''hi'', ''and'', ''you''] 1 s)"
  by (simp_all add: exec_line_def say_tokens say_lines Let_def)

text \<open>
  C7 at the lines \<^verbatim>\<open>print hi and you\<close> and \<^verbatim>\<open>say hi and you\<close>, each run from
  the initial state: \<^verbatim>\<open>print\<close> writes \<^verbatim>\<open>hi you\<close> and a newline, \<^verbatim>\<open>say\<close>
  writes a space after every token, also after the last one, before the newline.
\<close>

theorem say_differs_from_print:
  "execute 2 say_program 0 1 (init_state [])
     = Some (Next 1 ((init_state [])\<lparr>out := ''hi you'' @ [newline]\<rparr>))
   \<and> execute 2 say_program 1 2 (init_state [])
     = Some (Next 2 ((init_state [])\<lparr>out := ''hi you '' @ [newline]\<rparr>))"
  by (simp add: execute_unfold say_program_def [THEN arg_cong, of length] say_steps exec_print_def
      exec_say_def say_words init_state_def [THEN arg_cong, of out] del: One_nat_def)

subsection \<open>Converting to text and back\<close>












subsection \<open>Conditions with fewer than three words\<close>

text \<open>
  C9. A condition that is cut into fewer than three words is false, whatever the words
  are and in whatever state: \<^verbatim>\<open>eval_condition\<close> returns before it looks for
  \<^verbatim>\<open>is\<close> or for an operator.
\<close>

theorem eval_condition_short:
  "length (cond_words c) < 3 \<Longrightarrow> eval_condition s c = Some False"
  by (simp add: eval_condition_def Let_def)

text \<open>
The condition \<^verbatim>\<open>x is\<close> has two words, one of them \<^verbatim>\<open>is\<close>, and is false.
\<close>

theorem eval_condition_short_witness:
  "cond_words ''x is'' = [''x'', ''is''] \<and> eval_condition (init_state []) ''x is'' = Some False"
proof -
  have w: "cond_words ''x is'' = [''x'', ''is'']"
    by (simp add: cond_words_def MAX_LINE_def trim_def isspace_def strtok_words.simps isdelim_def)
  then have "length (cond_words ''x is'') < 3"
    by simp
  from eval_condition_short [OF this] w show ?thesis
    by simp
qed

subsection \<open>An \<^verbatim>\<open>ask\<close> without a target\<close>



end
